theory Spec2Isabelle
  imports Complex_Main "HOL-Library.Sublist" "HOL-Library.Log_Nat"
begin

section \<open>JavaScript primitives used by \<open>renderers.tsx\<close>\<close>

text \<open>
  A string is the sequence of bytes of its UTF-8 encoding. Numbers reach the renderers in two
  ways: \<open>indexOfType\<close> is an index kept by the parser and is modelled by its integer value;
  everything computed from \<open>parseInt\<close> is a double-precision number, modelled below with its
  rounding, its infinities and \<open>NaN\<close>.
\<close>

subsection \<open>Truncating division and remainder\<close>

text \<open>
  \<open>BigInt(a) / BigInt(b)\<close> truncates towards zero, and \<open>a % b\<close> on numbers takes the sign
  of the dividend.
\<close>

definition bigint_div :: "int \<Rightarrow> int \<Rightarrow> int" where
  "bigint_div a b = sgn a * sgn b * (\<bar>a\<bar> div \<bar>b\<bar>)"

definition js_rem :: "int \<Rightarrow> int \<Rightarrow> int" where
  "js_rem a b = sgn a * (\<bar>a\<bar> mod \<bar>b\<bar>)"

subsection \<open>Case conversion\<close>

text \<open>
  \<open>String.prototype.toLowerCase\<close> and \<open>toUpperCase\<close>: the ASCII letters are converted, every
  other byte is kept. The renderers apply them to tag names, which they compare with the
  ASCII names \<open>tr\<close>, \<open>tbody\<close>, \<open>thead\<close>, \<open>td\<close>, \<open>th\<close>, and to Roman numerals and letters of the
  alphabet; no letter outside ASCII is converted to a letter of these names, so leaving the
  bytes of such letters as they are decides the same comparisons.
\<close>

definition toLowerCase :: "string \<Rightarrow> string" where
  "toLowerCase s =
     map (\<lambda>c. case map_of (zip ''ABCDEFGHIJKLMNOPQRSTUVWXYZ'' ''abcdefghijklmnopqrstuvwxyz'') c of
                 None \<Rightarrow> c | Some l \<Rightarrow> l) s"

definition toUpperCase :: "string \<Rightarrow> string" where
  "toUpperCase s =
     map (\<lambda>c. case map_of (zip ''abcdefghijklmnopqrstuvwxyz'' ''ABCDEFGHIJKLMNOPQRSTUVWXYZ'') c of
                 None \<Rightarrow> c | Some u \<Rightarrow> u) s"

subsection \<open>\<open>String.prototype.includes\<close>\<close>

fun includes_str :: "string \<Rightarrow> string \<Rightarrow> bool" where
  "includes_str [] sub = (sub = [])"
| "includes_str (c # cs) sub = (prefix sub (c # cs) \<or> includes_str cs sub)"

subsection \<open>Double-precision numbers\<close>

text \<open>
  A number is a finite double, given by its exact rational value, one of the two infinities,
  or \<open>NaN\<close>. The two zeros are not told apart: the renderers divide by a column count only,
  which is at least 1 or \<open>NaN\<close>, and no other operation they use depends on the sign of a zero.
\<close>

datatype number = Fin rat | PosInf | NegInf | NaN

definition isNaN :: "number \<Rightarrow> bool" where
  "isNaN x = (x = NaN)"

definition pow2 :: "int \<Rightarrow> rat" where
  "pow2 k = (if 0 \<le> k then 2 ^ nat k else 1 / 2 ^ nat (- k))"

definition pow10 :: "int \<Rightarrow> rat" where
  "pow10 k = (if 0 \<le> k then 10 ^ nat k else 1 / 10 ^ nat (- k))"

definition round_half_even :: "rat \<Rightarrow> int" where
  "round_half_even q =
     (let f = \<lfloor>q\<rfloor>; r = q - of_int f
      in if r < 1 / 2 then f else if 1 / 2 < r then f + 1 else if even f then f else f + 1)"

text \<open>The exponent \<open>e\<close> with \<open>2^e \<le> q < 2^(e+1)\<close>, for a positive rational.\<close>

definition floor_log2 :: "rat \<Rightarrow> int" where
  "floor_log2 q =
     (let (a, b) = quotient_of q; k = bitlen a - bitlen b
      in if q < pow2 k then k - 1 else k)"

text \<open>
  Rounding of an exact result to the nearest double, ties to even: 53 significant bits, the
  least exponent \<open>-1022\<close> (below it the spacing stays \<open>2^-1074\<close>), and overflow to an infinity
  when the rounded magnitude reaches \<open>2^1024\<close>.
\<close>

definition binary64 :: "rat \<Rightarrow> number" where
  "binary64 q =
     (if q = 0 then Fin 0
      else let e = max (floor_log2 \<bar>q\<bar>) (- 1022);
               ulp = pow2 (e - 52);
               r = of_int (round_half_even (\<bar>q\<bar> / ulp)) * ulp
           in if pow2 1024 \<le> r then (if 0 < q then PosInf else NegInf)
              else Fin (sgn q * r))"

fun number_neg :: "number \<Rightarrow> number" where
  "number_neg (Fin x) = Fin (- x)"
| "number_neg PosInf = NegInf"
| "number_neg NegInf = PosInf"
| "number_neg NaN = NaN"

fun number_add :: "number \<Rightarrow> number \<Rightarrow> number" where
  "number_add (Fin x) (Fin y) = binary64 (x + y)"
| "number_add NaN y = NaN"
| "number_add x NaN = NaN"
| "number_add PosInf NegInf = NaN"
| "number_add NegInf PosInf = NaN"
| "number_add PosInf y = PosInf"
| "number_add NegInf y = NegInf"
| "number_add (Fin x) PosInf = PosInf"
| "number_add (Fin x) NegInf = NegInf"

definition number_sub :: "number \<Rightarrow> number \<Rightarrow> number" where
  "number_sub x y = number_add x (number_neg y)"

fun number_mul :: "number \<Rightarrow> number \<Rightarrow> number" where
  "number_mul (Fin x) (Fin y) = binary64 (x * y)"
| "number_mul NaN y = NaN"
| "number_mul x NaN = NaN"
| "number_mul (Fin x) PosInf = (if x = 0 then NaN else if 0 < x then PosInf else NegInf)"
| "number_mul (Fin x) NegInf = (if x = 0 then NaN else if 0 < x then NegInf else PosInf)"
| "number_mul PosInf (Fin y) = (if y = 0 then NaN else if 0 < y then PosInf else NegInf)"
| "number_mul NegInf (Fin y) = (if y = 0 then NaN else if 0 < y then NegInf else PosInf)"
| "number_mul PosInf PosInf = PosInf"
| "number_mul PosInf NegInf = NegInf"
| "number_mul NegInf PosInf = NegInf"
| "number_mul NegInf NegInf = PosInf"

fun number_div :: "number \<Rightarrow> number \<Rightarrow> number" where
  "number_div (Fin x) (Fin y) =
     (if y = 0 then (if x = 0 then NaN else if 0 < x then PosInf else NegInf)
      else binary64 (x / y))"
| "number_div NaN y = NaN"
| "number_div x NaN = NaN"
| "number_div (Fin x) PosInf = Fin 0"
| "number_div (Fin x) NegInf = Fin 0"
| "number_div PosInf (Fin y) = (if 0 \<le> y then PosInf else NegInf)"
| "number_div NegInf (Fin y) = (if 0 \<le> y then NegInf else PosInf)"
| "number_div PosInf y = NaN"
| "number_div NegInf y = NaN"

text \<open>The comparison \<open>x < y\<close>, false whenever an operand is \<open>NaN\<close>.\<close>

fun number_less :: "number \<Rightarrow> number \<Rightarrow> bool" where
  "number_less (Fin x) (Fin y) = (x < y)"
| "number_less NaN y = False"
| "number_less x NaN = False"
| "number_less x NegInf = False"
| "number_less PosInf y = False"
| "number_less NegInf y = True"
| "number_less (Fin x) PosInf = True"

text \<open>
  \<open>Math.max\<close> of a list of arguments: \<open>NaN\<close> if one of them is, else the highest, starting
  from \<open>-Infinity\<close>.
\<close>

definition Math_max :: "number list \<Rightarrow> number" where
  "Math_max values =
     (if NaN \<in> set values then NaN
      else fold (\<lambda>value highest. if number_less highest value then value else highest)
             values NegInf)"

text \<open>The number whose value is the given integer (an index kept by the parser).\<close>

definition index_number :: "int \<Rightarrow> number" where
  "index_number i = Fin (of_int i)"

subsection \<open>Numbers as text\<close>

text \<open>The decimal digits of a natural number.\<close>

function show_digits :: "int \<Rightarrow> string" where
  "show_digits n =
     (if n < 10 then [''0123456789'' ! nat n]
      else show_digits (n div 10) @ [''0123456789'' ! nat (n mod 10)])"
  by pat_completeness auto
termination
  by (relation "measure nat") auto

declare show_digits.simps [simp del]

text \<open>
  \<open>Number::toString\<close> for a positive finite double \<open>q\<close> takes integers \<open>n\<close>, \<open>k\<close>, \<open>s\<close> with
  \<open>10^(k-1) \<le> s < 10^k\<close> such that \<open>s * 10^(n-k)\<close> rounds to \<open>q\<close> and \<open>k\<close> is as small as
  possible, the nearest to \<open>q\<close> among several \<open>s\<close>. \<open>decimal_exponent\<close> is the \<open>n\<close> with
  \<open>10^(n-1) \<le> q < 10^n\<close>; the digits are searched with this \<open>n\<close>, after the one case in which
  the next power of ten itself rounds to \<open>q\<close>.
\<close>

definition decimal_exponent :: "rat \<Rightarrow> int" where
  "decimal_exponent q =
     (let est = (floor_log2 q * 30103) div 100000
      in case find (\<lambda>n. q < pow10 n) [est - 1, est, est + 1, est + 2, est + 3] of
           None \<Rightarrow> est + 4
         | Some n \<Rightarrow> n)"

definition digit_candidates :: "rat \<Rightarrow> int \<Rightarrow> int \<Rightarrow> int list" where
  "digit_candidates q n k =
     (let scale = pow10 (n - k); low = \<lfloor>q / scale\<rfloor>
      in filter (\<lambda>s. s < 10 ^ nat k \<and> binary64 (of_int s * scale) = Fin q) [low, low + 1])"

definition closest_candidate :: "rat \<Rightarrow> int \<Rightarrow> int \<Rightarrow> int list \<Rightarrow> int" where
  "closest_candidate q n k candidates =
     (case candidates of
        [s] \<Rightarrow> s
      | [s, t] \<Rightarrow>
          (let scale = pow10 (n - k);
               ds = \<bar>of_int s * scale - q\<bar>;
               dt = \<bar>of_int t * scale - q\<bar>
           in if ds < dt then s else if dt < ds then t else if even s then s else t)
      | _ \<Rightarrow> 0)"

definition shortest_digits :: "rat \<Rightarrow> int \<times> int \<times> int" where
  "shortest_digits q =
     (let n = decimal_exponent q
      in if binary64 (pow10 n) = Fin q then (n + 1, 1, 1)
         else case find (\<lambda>k. digit_candidates q n k \<noteq> [])
                     [1, 2, 3, 4, 5, 6, 7, 8, 9, 10, 11, 12, 13, 14, 15, 16, 17] of
                None \<Rightarrow> (n, 17, \<lfloor>q / pow10 (n - 17)\<rfloor>)
              | Some k \<Rightarrow> (n, k, closest_candidate q n k (digit_candidates q n k)))"

text \<open>The text of the digits \<open>s\<close> with the decimal exponent \<open>n\<close>, as \<open>Number::toString\<close> lays it out.\<close>

definition positive_toString :: "rat \<Rightarrow> string" where
  "positive_toString q =
     (let (n, k, s) = shortest_digits q; digits = show_digits s
      in if k \<le> n \<and> n \<le> 21 then digits @ replicate (nat (n - k)) (CHR ''0'')
         else if 0 < n \<and> n \<le> 21 then take (nat n) digits @ ''.'' @ drop (nat n) digits
         else if - 6 < n \<and> n \<le> 0 then ''0.'' @ replicate (nat (- n)) (CHR ''0'') @ digits
         else (if k = 1 then digits else take 1 digits @ ''.'' @ drop 1 digits) @ ''e'' @
              (if n - 1 < 0 then ''-'' else ''+'') @ show_digits \<bar>n - 1\<bar>)"

text \<open>The text of a number, as \<open>String(x)\<close> gives it and as JSX renders \<open>{x}\<close>.\<close>

definition number_toString :: "number \<Rightarrow> string" where
  "number_toString x =
     (case x of
        NaN \<Rightarrow> ''NaN''
      | PosInf \<Rightarrow> ''Infinity''
      | NegInf \<Rightarrow> ''-Infinity''
      | Fin q \<Rightarrow>
          if q = 0 then ''0''
          else if q < 0 then ''-'' @ positive_toString (- q)
          else positive_toString q)"

text \<open>
  The digits of \<open>toFixed(f)\<close> for a magnitude below \<open>10^21\<close>: the integer \<open>n\<close> with \<open>n / 10^f\<close>
  nearest to the magnitude (the larger one on a tie), written with at least \<open>f + 1\<close> digits
  and a point before the last \<open>f\<close>.
\<close>

definition fixed_digits :: "rat \<Rightarrow> nat \<Rightarrow> string" where
  "fixed_digits x f =
     (let n = \<lfloor>x * 10 ^ f + 1 / 2\<rfloor>;
          m = show_digits n;
          m' = replicate (f + 1 - length m) (CHR ''0'') @ m;
          k = length m'
      in if f = 0 then m' else take (k - f) m' @ ''.'' @ drop (k - f) m')"

text \<open>
  \<open>Number.prototype.toFixed(f)\<close>: a number that is not finite gives its text; a finite one
  gives its sign followed by the text of its magnitude when that is \<open>10^21\<close> or more, and by
  the fixed digits otherwise.
\<close>

definition toFixed :: "number \<Rightarrow> nat \<Rightarrow> string" where
  "toFixed x f =
     (case x of
        Fin q \<Rightarrow>
          (if q < 0 then ''-'' else []) @
          (if 10 ^ 21 \<le> \<bar>q\<bar> then number_toString (Fin \<bar>q\<bar>) else fixed_digits \<bar>q\<bar> f)
      | _ \<Rightarrow> number_toString x)"

subsection \<open>\<open>parseInt(string, 10)\<close>\<close>

text \<open>
  The white space and line terminators that \<open>parseInt\<close> skips, in UTF-8: U+0009 to U+000D,
  U+0020, U+00A0, U+1680, U+2000 to U+200A, U+2028, U+2029, U+202F, U+205F, U+3000, U+FEFF.
\<close>

definition white_space :: "string list" where
  "white_space =
     [ [CHR 0x09], [CHR 0x0A], [CHR 0x0B], [CHR 0x0C], [CHR 0x0D], [CHR 0x20],
       [CHR 0xC2, CHR 0xA0], [CHR 0xE1, CHR 0x9A, CHR 0x80],
       [CHR 0xE2, CHR 0x80, CHR 0x80], [CHR 0xE2, CHR 0x80, CHR 0x81],
       [CHR 0xE2, CHR 0x80, CHR 0x82], [CHR 0xE2, CHR 0x80, CHR 0x83],
       [CHR 0xE2, CHR 0x80, CHR 0x84], [CHR 0xE2, CHR 0x80, CHR 0x85],
       [CHR 0xE2, CHR 0x80, CHR 0x86], [CHR 0xE2, CHR 0x80, CHR 0x87],
       [CHR 0xE2, CHR 0x80, CHR 0x88], [CHR 0xE2, CHR 0x80, CHR 0x89],
       [CHR 0xE2, CHR 0x80, CHR 0x8A], [CHR 0xE2, CHR 0x80, CHR 0xA8],
       [CHR 0xE2, CHR 0x80, CHR 0xA9], [CHR 0xE2, CHR 0x80, CHR 0xAF],
       [CHR 0xE2, CHR 0x81, CHR 0x9F], [CHR 0xE3, CHR 0x80, CHR 0x80],
       [CHR 0xEF, CHR 0xBB, CHR 0xBF] ]"

function trimStart :: "string \<Rightarrow> string" where
  "trimStart s =
     (case find (\<lambda>w. prefix w s) white_space of
        None \<Rightarrow> s
      | Some w \<Rightarrow> trimStart (drop (length w) s))"
  by pat_completeness auto
termination
proof (relation "measure length")
  fix s w :: string
  assume "find (\<lambda>w. prefix w s) white_space = Some w"
  then have "w \<in> set white_space" and p: "prefix w s"
    by (auto simp: find_Some_iff)
  then have "w \<noteq> []"
    by (auto simp: white_space_def)
  with p have "length (drop (length w) s) < length s"
    by (cases s) (auto simp: prefix_def)
  then show "(drop (length w) s, s) \<in> measure length"
    by simp
qed simp

declare trimStart.simps [simp del]

definition digit_of :: "char \<Rightarrow> int option" where
  "digit_of = map_of (zip ''0123456789'' [0, 1, 2, 3, 4, 5, 6, 7, 8, 9])"

definition digits_value :: "string \<Rightarrow> int" where
  "digits_value ds = foldl (\<lambda>acc c. 10 * acc + (case digit_of c of None \<Rightarrow> 0 | Some d \<Rightarrow> d)) 0 ds"

text \<open>
  \<open>parseInt\<close> skips leading white space, reads an optional sign and then the longest prefix
  of decimal digits; with no digit the result is \<open>NaN\<close>, else the double nearest to the
  signed integer read (an infinity when that is out of range).
\<close>

definition parseInt_string :: "string \<Rightarrow> number" where
  "parseInt_string inputString =
     (let S = trimStart inputString;
          negative = (case S of [] \<Rightarrow> False | c # _ \<Rightarrow> c = CHR ''-'');
          S' = (case S of [] \<Rightarrow> [] | c # cs \<Rightarrow> if c = CHR ''+'' \<or> c = CHR ''-'' then cs else S);
          Z = takeWhile (\<lambda>c. digit_of c \<noteq> None) S'
      in if Z = [] then NaN
         else binary64 (of_int ((if negative then - 1 else 1) * digits_value Z)))"

text \<open>
  The argument is converted to a string first: an absent attribute is \<open>undefined\<close> and reads
  as the text \<open>undefined\<close>.
\<close>

definition parseInt :: "string option \<Rightarrow> number" where
  "parseInt a = parseInt_string (case a of None \<Rightarrow> ''undefined'' | Some s \<Rightarrow> s)"

section \<open>\<open>toRoman\<close>\<close>

text \<open>
  The \<open>Map\<close> literal of \<open>toRoman\<close>; \<open>forEach\<close> visits its entries in insertion order.
\<close>

definition conversationMap :: "(int \<times> string) list" where
  "conversationMap =
     [(1000, ''M''), (900, ''CM''), (500, ''D''), (400, ''CD''), (100, ''C''), (90, ''XC''),
      (50, ''L''), (40, ''XL''), (10, ''X''), (9, ''IX''), (5, ''V''), (4, ''IV''), (1, ''I'')]"

text \<open>
  The inner loop \<open>while (quotient--) { result += roman; }\<close>: the test reads the old value of
  \<open>quotient\<close> (any non-zero bigint is truthy) and then decrements it. Starting from a
  negative quotient the test never fails, so the loop is a partial function: \<open>None\<close> means that
  it does not return.
\<close>

partial_function (option) append_roman :: "int \<Rightarrow> string \<Rightarrow> string \<Rightarrow> string option" where
  "append_roman quot roman result =
     (if quot \<noteq> 0 then append_roman (quot - 1) roman (result @ roman) else Some result)"

text \<open>The body of \<open>conversationMap.forEach\<close>, threading \<open>num\<close> and \<open>result\<close>.\<close>

fun toRoman_forEach :: "(int \<times> string) list \<Rightarrow> int \<Rightarrow> string \<Rightarrow> string option" where
  "toRoman_forEach [] num result = Some result"
| "toRoman_forEach ((decimal, roman) # entries) num result =
     (case append_roman (bigint_div num decimal) roman result of
        None \<Rightarrow> None
      | Some result' \<Rightarrow> toRoman_forEach entries (js_rem num decimal) result')"

definition toRoman :: "int \<Rightarrow> string option" where
  "toRoman num = toRoman_forEach conversationMap num []"

text \<open>
  The specification's wording of the conversion: greedy descending substitution, that is,
  as long as the largest remaining table entry fits, emit its numeral and subtract its value.
\<close>

function roman_greedy :: "(int \<times> string) list \<Rightarrow> int \<Rightarrow> string" where
  "roman_greedy [] n = []"
| "roman_greedy ((d, r) # entries) n =
     (if 0 < d \<and> d \<le> n then r @ roman_greedy ((d, r) # entries) (n - d)
      else roman_greedy entries n)"
  by pat_completeness auto
termination
  by (relation "measures [\<lambda>(entries, n). length entries, \<lambda>(entries, n). nat n]") auto

declare roman_greedy.simps [simp del]

section \<open>The parsed tree\<close>

text \<open>
  The renderers read a tree built by \<open>parse.js\<close> with styles declared in \<open>styles.js\<close>;
  neither file is among the sources verified here, so the types they declare are modelled
  from the specification's data model.
\<close>

text \<open>Modelled from the spec: the node types of the parser (\<open>NodeType\<close>, imported).\<close>

datatype NodeType = ELEMENT_NODE | TEXT_NODE | COMMENT_NODE

text \<open>
  Modelled from the spec: \<open>HtmlStyle\<close> (declared in \<open>styles.js\<close>) is a mapping from
  property names to string values; an absent key reads as \<open>undefined\<close>.
\<close>

type_synonym HtmlStyle = "string \<rightharpoonup> string"

text \<open>
  Modelled from the spec: \<open>HtmlElement\<close> (declared in \<open>parse.js\<close>) is the view the
  renderers have of a node: its node type, tag name, attributes, cascaded style entries,
  0-based index among the siblings of the same tag, child nodes, and what the navigation
  accessors \<open>parentNode\<close> and \<open>previousElementSibling\<close> return (\<open>None\<close> for \<open>null\<close>).
\<close>

datatype HtmlElement = HtmlElement
  (nodeType: NodeType)
  (tagName: string)
  (attributes: "string \<rightharpoonup> string")
  (style: "HtmlStyle list")
  (indexOfType: int)
  (childNodes: "HtmlElement list")
  (parentNode: "HtmlElement option")
  (previousElementSibling: "HtmlElement option")

text \<open>
  Modelled from the spec: the property \<open>tag\<close> is set in \<open>parse.js\<close>; it is the lowercased
  tag name.
\<close>

definition tag :: "HtmlElement \<Rightarrow> string" where
  "tag element = toLowerCase (tagName element)"

text \<open>
  What a renderer throws: \<open>new Error(message)\<close>, the \<open>TypeError\<close> of reading a property of
  \<open>null\<close> or \<open>undefined\<close>, or the \<open>RangeError\<close> of a call with too many arguments.
\<close>

datatype error = Error string | TypeError | RangeError

text \<open>
  Modelled from the spec: \<open>closest\<close> is the parser's method; it searches upward from the
  element itself and returns the first node whose tag is in the selector's tag set, or
  \<open>null\<close>.
\<close>

function closest :: "string list \<Rightarrow> HtmlElement \<Rightarrow> HtmlElement option" where
  "closest selector element =
     (if tag element \<in> set selector then Some element
      else case parentNode element of
             None \<Rightarrow> None
           | Some parent \<Rightarrow> closest selector parent)"
  by pat_completeness auto
termination
proof (relation "measure (\<lambda>(selector, element). size element)")
  fix selector and element parent :: HtmlElement
  assume "parentNode element = Some parent"
  then show "((selector, parent), (selector, element)) \<in> measure (\<lambda>(selector, element). size element)"
    by (cases element) simp
qed simp

declare closest.simps [simp del]

text \<open>
  \<open>style.reduce((combined, s) => Object.assign(combined, s), {})\<close>: later entries override
  earlier ones.
\<close>

definition reduce_assign :: "HtmlStyle list \<Rightarrow> HtmlStyle" where
  "reduce_assign styles = foldl (++) Map.empty styles"

text \<open>Truthiness of a possibly undefined string: defined and not empty.\<close>

definition truthy :: "string option \<Rightarrow> bool" where
  "truthy v = (case v of None \<Rightarrow> False | Some s \<Rightarrow> s \<noteq> [])"

section \<open>Tree queries\<close>

definition childElements :: "HtmlElement \<Rightarrow> string list option \<Rightarrow> HtmlElement list" where
  "childElements element tagNames =
     filter (\<lambda>child. nodeType child = ELEMENT_NODE \<and>
                      (case tagNames of
                         None \<Rightarrow> True
                       | Some names \<Rightarrow> toLowerCase (tagName child) \<in> set names))
       (childNodes element)"

definition getRows :: "HtmlElement \<Rightarrow> HtmlElement list" where
  "getRows table =
     (let rows = childElements table (Some [''tr'']);
          sections = childElements table (Some [''tbody'', ''thead''])
      in fold (\<lambda>section rows. rows @ childElements section (Some [''tr''])) sections rows)"

section \<open>Table grid\<close>

text \<open>
  The body of the inner \<open>forEach\<close> of \<open>getMaxColumns\<close>: one cell's contribution,
  \<open>colCount++\<close> or \<open>colCount += colspan\<close>.
\<close>

definition add_colspan :: "HtmlElement \<Rightarrow> number \<Rightarrow> number" where
  "add_colspan col colCount =
     (let colspan = parseInt (attributes col ''colspan'')
      in if isNaN colspan then number_add colCount (Fin 1)
         else number_add colCount colspan)"

definition row_colCount :: "HtmlElement \<Rightarrow> number" where
  "row_colCount row = fold add_colspan (childElements row (Some [''td'', ''th''])) (Fin 0)"

text \<open>
  \<open>Math.max(1, ...colCounts)\<close> passes one argument for every row. An engine accepts only so
  many arguments in a call and throws a \<open>RangeError\<close> beyond; the bound depends on the engine
  and on the stack in use, so it is a parameter: \<open>spreadLimit\<close> is the largest number of
  spread elements with which this call still returns.
\<close>

definition getMaxColumns :: "nat \<Rightarrow> HtmlElement option \<Rightarrow> error + number" where
  "getMaxColumns spreadLimit table =
     (case table of
        None \<Rightarrow> Inr (Fin 1)
      | Some t \<Rightarrow>
          (let rows = getRows t;
               colCounts = map row_colCount rows
           in if spreadLimit < length colCounts then Inl RangeError
              else Inr (Math_max (Fin 1 # colCounts))))"

text \<open>
  Values of the style object a cell is rendered with: strings copied from the table's style
  or computed, and the number \<open>0\<close>. A key whose value is \<open>undefined\<close> is absent.
\<close>

datatype style_value = Str string | Num int

type_synonym base_style = "string \<rightharpoonup> style_value"

text \<open>Lines 156 to 175 of \<open>renderCell\<close>: the border properties and the border model.\<close>

definition cell_borders :: "HtmlStyle \<Rightarrow> int \<Rightarrow> base_style" where
  "cell_borders tableStyles index =
     (let baseStyles = (\<lambda>key. if key \<in> set [''border'', ''borderColor'', ''borderWidth'', ''borderStyle'']
                               then map_option Str (tableStyles key) else None)
      in if truthy (tableStyles ''borderSpacing'') \<and> tableStyles ''borderCollapse'' \<noteq> Some ''collapse''
         then baseStyles
                (''width'' := map_option Str (tableStyles ''borderWidth''),
                 ''margin'' := map_option Str (tableStyles ''borderSpacing''))
         else let baseStyles = baseStyles(''borderRightWidth'' \<mapsto> Num 0, ''borderBottomWidth'' \<mapsto> Num 0)
              in if index \<noteq> 0
                 then baseStyles
                        (''borderLeftWidth'' := map_option Str (tableStyles ''borderWidth''),
                         ''borderTopWidth'' := map_option Str (tableStyles ''borderWidth''))
                 else baseStyles)"

text \<open>Lines 178 to 186: the percentage width, from the column count.\<close>

definition cell_width :: "HtmlElement \<Rightarrow> number \<Rightarrow> string" where
  "cell_width element colCount =
     (let basePercent = number_div (Fin 100) colCount;
          width = toFixed basePercent 5 @ ''%''
      in if truthy (attributes element ''colspan'')
         then (let colspan = parseInt (attributes element ''colspan'')
               in if \<not> isNaN colspan then toFixed (number_mul colspan basePercent) 5 @ ''%''
                  else width)
         else width)"

text \<open>
  \<open>renderCell\<close> returns a \<open>View\<close> whose style is \<open>{...baseStyles, ...style}\<close>; the model
  returns \<open>baseStyles\<close>, or the error thrown: at the missing table, or by \<open>getMaxColumns\<close>
  (line 177).
\<close>

definition renderCell :: "nat \<Rightarrow> HtmlElement \<Rightarrow> error + base_style" where
  "renderCell spreadLimit element =
     (case closest [''table''] element of
        None \<Rightarrow> Inl (Error ''td element rendered outside of a table'')
      | Some table \<Rightarrow>
          (let tableStyles = reduce_assign (style table);
               baseStyles = cell_borders tableStyles (indexOfType element)
           in case getMaxColumns spreadLimit (Some table) of
                Inl e \<Rightarrow> Inl e
              | Inr colCount \<Rightarrow> Inr (baseStyles(''width'' \<mapsto> Str (cell_width element colCount)))))"

section \<open>List items\<close>

text \<open>
  Modelled from the spec: \<open>lowerAlpha\<close> is a constant of \<open>ordered.type.js\<close>, which is not
  among the sources; the lowercase alphabetic family is \<open>lower-alpha\<close>/\<open>lower-latin\<close>.
\<close>

definition lowerAlpha :: "string list" where
  "lowerAlpha = [''lower-alpha'', ''lower-latin'']"

text \<open>
  Modelled from the spec: \<open>upperAlpha\<close>, of the same file; the uppercase alphabetic family is
  \<open>upper-alpha\<close>/\<open>upper-latin\<close>.
\<close>

definition upperAlpha :: "string list" where
  "upperAlpha = [''upper-alpha'', ''upper-latin'']"

text \<open>
  Modelled from the spec: \<open>orderedAlpha\<close>, of the same file; the letter sequence, from index
  0 (\<open>a\<close>) to index 25 (\<open>z\<close>).
\<close>

definition orderedAlpha :: "string list" where
  "orderedAlpha = map (\<lambda>c. [c]) ''abcdefghijklmnopqrstuvwxyz''"

text \<open>The marker computed by the \<open>li\<close> renderer: \<open>false\<close>, an image, or a text.\<close>

datatype bullet = Bullet_false | Bullet_Image string | Bullet_Text string

text \<open>
  \<open>listStyleType.match(/\((.*?)\)/)\<close>: the first group of the leftmost match, \<open>None\<close> when
  \<open>match\<close> returns \<open>null\<close>. The dot does not match a line terminator (U+000A, U+000D,
  U+2028, U+2029).
\<close>

definition line_terminator :: "string list" where
  "line_terminator =
     [ [CHR 0x0A], [CHR 0x0D], [CHR 0xE2, CHR 0x80, CHR 0xA8], [CHR 0xE2, CHR 0x80, CHR 0xA9] ]"

fun capture_to_close :: "string \<Rightarrow> string option" where
  "capture_to_close [] = None"
| "capture_to_close (c # cs) =
     (if c = CHR '')'' then Some []
      else if find (\<lambda>t. prefix t (c # cs)) line_terminator \<noteq> None then None
      else map_option ((#) c) (capture_to_close cs))"

fun match_group :: "string \<Rightarrow> string option" where
  "match_group [] = None"
| "match_group (c # cs) =
     (if c = CHR ''(''
      then (case capture_to_close cs of Some g \<Rightarrow> Some g | None \<Rightarrow> match_group cs)
      else match_group cs)"

text \<open>\<open>.replace(/(['"])/g, '')\<close>.\<close>

definition strip_quotes :: "string \<Rightarrow> string" where
  "strip_quotes s = filter (\<lambda>c. c \<noteq> CHR 0x27 \<and> c \<noteq> CHR 0x22) s"

text \<open>
  \<open>list?.tag === 'ol' || element.parentNode.tag === 'ol'\<close>; reading \<open>tag\<close> of a null
  parent throws.
\<close>

definition li_ordered :: "HtmlElement \<Rightarrow> error + bool" where
  "li_ordered element =
     (case closest [''ol'', ''ul''] element of
        Some list \<Rightarrow>
          if tag list = ''ol'' then Inr True
          else (case parentNode element of
                  None \<Rightarrow> Inl TypeError
                | Some parent \<Rightarrow> Inr (tag parent = ''ol''))
      | None \<Rightarrow>
          (case parentNode element of
             None \<Rightarrow> Inl TypeError
           | Some parent \<Rightarrow> Inr (tag parent = ''ol'')))"

definition li_listStyleType :: "HtmlElement \<Rightarrow> string" where
  "li_listStyleType element =
     (let listStyle = (case closest [''ol'', ''ul''] element of
                         None \<Rightarrow> Map.empty
                       | Some list \<Rightarrow> reduce_assign (style list));
          itemStyle = reduce_assign (style element)
      in if truthy (itemStyle ''listStyleType'') then the (itemStyle ''listStyleType'')
         else if truthy (itemStyle ''listStyle'') then the (itemStyle ''listStyle'')
         else if truthy (listStyle ''listStyleType'') then the (listStyle ''listStyleType'')
         else if truthy (listStyle ''listStyle'') then the (listStyle ''listStyle'')
         else [])"

text \<open>
  The \<open>do ... while (!!sibling)\<close> loop of the ordered branch. \<open>continue\<close> jumps to the loop
  test, so a sibling that is not an \<open>li\<close> is passed over.
\<close>

function walk :: "int \<Rightarrow> number \<Rightarrow> HtmlElement \<Rightarrow> number" where
  "walk currentIndex updatedIndex currentElement =
     (if tag currentElement \<noteq> ''li''
      then (case previousElementSibling currentElement of
              None \<Rightarrow> updatedIndex
            | Some sibling \<Rightarrow> walk currentIndex updatedIndex sibling)
      else let startValue = parseInt (attributes currentElement ''value'')
           in if \<not> isNaN startValue
              then number_sub
                     (number_add startValue
                        (number_sub (index_number currentIndex)
                           (index_number (indexOfType currentElement))))
                     (Fin 1)
              else (case previousElementSibling currentElement of
                      None \<Rightarrow> updatedIndex
                    | Some sibling \<Rightarrow> walk currentIndex updatedIndex sibling))"
  by pat_completeness auto
termination
proof (relation "measure (\<lambda>(currentIndex, updatedIndex, currentElement). size currentElement)")
  fix currentIndex :: int and updatedIndex :: number and currentElement sibling :: HtmlElement
  assume "previousElementSibling currentElement = Some sibling"
  then have "size sibling < size currentElement"
    by (cases currentElement) simp
  then show "((currentIndex, updatedIndex, sibling), (currentIndex, updatedIndex, currentElement))
      \<in> measure (\<lambda>(currentIndex, updatedIndex, currentElement). size currentElement)"
      "((currentIndex, updatedIndex, sibling), (currentIndex, updatedIndex, currentElement))
      \<in> measure (\<lambda>(currentIndex, updatedIndex, currentElement). size currentElement)"
    by simp_all
qed simp

declare walk.simps [simp del]

text \<open>
  \<open>orderedAlpha[updatedIndex].toLowerCase()\<close>: the entry is \<open>undefined\<close> unless the index is
  an integer from 0 to the last position, and calling a method on \<open>undefined\<close> throws.
\<close>

definition alpha_bullet :: "(string \<Rightarrow> string) \<Rightarrow> number \<Rightarrow> error + bullet" where
  "alpha_bullet convert updatedIndex =
     (case updatedIndex of
        Fin q \<Rightarrow>
          if q = of_int \<lfloor>q\<rfloor> \<and> 0 \<le> q \<and> \<lfloor>q\<rfloor> < int (length orderedAlpha)
          then Inr (Bullet_Text (convert (orderedAlpha ! nat \<lfloor>q\<rfloor>) @ ''.''))
          else Inl TypeError
      | _ \<Rightarrow> Inl TypeError)"

text \<open>
  Lines 228 to 253: the index after the walk, from the start offset of the parent list.
\<close>

definition li_updatedIndex :: "HtmlElement \<Rightarrow> HtmlElement \<Rightarrow> number" where
  "li_updatedIndex element parent =
     (let currentIndex = indexOfType element;
          start = parseInt (attributes parent ''start'');
          offset = (if isNaN start then Fin 0 else number_sub start (Fin 1))
      in walk currentIndex (number_add (index_number currentIndex) offset) element)"

text \<open>
  The ordered branch (lines 228 to 265); reading \<open>attributes\<close> of a null parent throws.
  \<open>None\<close> stands for a call that does not return, which only \<open>toRoman\<close> can cause.
\<close>

definition ordered_bullet :: "HtmlElement \<Rightarrow> string \<Rightarrow> (error + bullet) option" where
  "ordered_bullet element listStyleType =
     (case parentNode element of
        None \<Rightarrow> Some (Inl TypeError)
      | Some parent \<Rightarrow>
          (let updatedIndex = li_updatedIndex element parent
           in if listStyleType \<in> set lowerAlpha then Some (alpha_bullet toLowerCase updatedIndex)
              else if listStyleType \<in> set upperAlpha then Some (alpha_bullet toUpperCase updatedIndex)
              else if listStyleType = ''lower-roman''
              then map_option (\<lambda>roman. Inr (Bullet_Text (toLowerCase roman @ ''.'')))
                     (toRoman (indexOfType element + 1))
              else if listStyleType = ''upper-roman''
              then map_option (\<lambda>roman. Inr (Bullet_Text (toUpperCase roman @ ''.'')))
                     (toRoman (indexOfType element + 1))
              else Some (Inr (Bullet_Text
                     (number_toString (number_add updatedIndex (Fin 1)) @ ''.'')))))"

text \<open>The bullet character U+2022, in UTF-8.\<close>

definition bullet_char :: string where
  "bullet_char = [CHR 0xE2, CHR 0x80, CHR 0xA2]"

text \<open>
  The \<open>li\<close> renderer up to the value of \<open>bullet\<close>; the returned \<open>View\<close> shows the bullet
  unless it is \<open>false\<close>.
\<close>

definition li :: "HtmlElement \<Rightarrow> (error + bullet) option" where
  "li element =
     (case li_ordered element of
        Inl e \<Rightarrow> Some (Inl e)
      | Inr ordered \<Rightarrow>
          (let listStyleType = li_listStyleType element
           in if includes_str listStyleType ''none'' then Some (Inr Bullet_false)
              else if includes_str listStyleType ''url(''
              then (case match_group listStyleType of
                      None \<Rightarrow> Some (Inl TypeError)
                    | Some g \<Rightarrow> Some (Inr (Bullet_Image (strip_quotes g))))
              else if ordered then ordered_bullet element listStyleType
              else Some (Inr (Bullet_Text bullet_char))))"

section \<open>Notions of the specification\<close>

text \<open>
  The sibling chain of an element: the element itself, then its previous element siblings,
  nearest first.
\<close>

function sibling_chain :: "HtmlElement \<Rightarrow> HtmlElement list" where
  "sibling_chain element =
     element # (case previousElementSibling element of
                  None \<Rightarrow> []
                | Some sibling \<Rightarrow> sibling_chain sibling)"
  by pat_completeness auto
termination
proof (relation "measure size")
  fix element sibling :: HtmlElement
  assume "previousElementSibling element = Some sibling"
  then show "(sibling, element) \<in> measure size"
    by (cases element) simp
qed simp

declare sibling_chain.simps [simp del]

text \<open>The proper ancestors of an element, nearest first.\<close>

function ancestors :: "HtmlElement \<Rightarrow> HtmlElement list" where
  "ancestors element =
     (case parentNode element of
        None \<Rightarrow> []
      | Some parent \<Rightarrow> parent # ancestors parent)"
  by pat_completeness auto
termination
proof (relation "measure size")
  fix element parent :: HtmlElement
  assume "parentNode element = Some parent"
  then show "(parent, element) \<in> measure size"
    by (cases element) simp
qed simp

declare ancestors.simps [simp del]

text \<open>The nearest \<open>li\<close> among the previous element siblings, if any.\<close>

definition previous_li :: "HtmlElement \<Rightarrow> HtmlElement option" where
  "previous_li element = find (\<lambda>sibling. tag sibling = ''li'') (tl (sibling_chain element))"

text \<open>An \<open>li\<close> whose \<open>value\<close> attribute parses as an integer, and the number it parses to.\<close>

definition has_value :: "HtmlElement \<Rightarrow> bool" where
  "has_value sibling = (tag sibling = ''li'' \<and> parseInt (attributes sibling ''value'') \<noteq> NaN)"

definition value_of :: "HtmlElement \<Rightarrow> number" where
  "value_of sibling = parseInt (attributes sibling ''value'')"

text \<open>The start offset of a list: \<open>start - 1\<close> if its \<open>start\<close> attribute parses, else 0.\<close>

definition start_offset :: "HtmlElement \<Rightarrow> number" where
  "start_offset parent =
     (if parseInt (attributes parent ''start'') = NaN then Fin 0
      else number_sub (parseInt (attributes parent ''start'')) (Fin 1))"

text \<open>
  A list style that selects plain decimal numbering: no \<open>none\<close>, no \<open>url(\<close>, and neither
  an alphabetic nor a Roman keyword.
\<close>

definition decimal_style :: "string \<Rightarrow> bool" where
  "decimal_style listStyleType =
     (\<not> includes_str listStyleType ''none'' \<and> \<not> includes_str listStyleType ''url('' \<and>
      listStyleType \<notin> set lowerAlpha \<and> listStyleType \<notin> set upperAlpha \<and>
      listStyleType \<noteq> ''lower-roman'' \<and> listStyleType \<noteq> ''upper-roman'')"

text \<open>
  The element children of a node whose tag is one of the given names, in document order.
\<close>

definition element_children :: "string list \<Rightarrow> HtmlElement \<Rightarrow> HtmlElement list" where
  "element_children names node =
     [child \<leftarrow> childNodes node. nodeType child = ELEMENT_NODE \<and> tag child \<in> set names]"

text \<open>
  The rows a table is discovered to have: its \<open>tr\<close> children, then the \<open>tr\<close> children of each
  of its \<open>thead\<close> and \<open>tbody\<close> children. The cells of a row are its \<open>td\<close> and \<open>th\<close> children.
\<close>

definition discovered_rows :: "HtmlElement \<Rightarrow> HtmlElement list" where
  "discovered_rows table =
     element_children [''tr''] table @
     concat (map (element_children [''tr'']) (element_children [''thead'', ''tbody''] table))"

definition cells :: "HtmlElement \<Rightarrow> HtmlElement list" where
  "cells row = element_children [''td'', ''th''] row"

text \<open>
  The span of a cell in the specification's words: its \<open>colspan\<close> attribute parsed as an
  integer, 1 if absent or invalid. The span is exact when the parsed number is that integer
  (and not an infinity); the spans of a row are safe when they are exact and their absolute
  values add up to less than \<open>2^53\<close>, so that every partial sum is a safe integer.
\<close>

definition cell_span :: "HtmlElement \<Rightarrow> int" where
  "cell_span col =
     (case parseInt (attributes col ''colspan'') of
        Fin q \<Rightarrow> \<lfloor>q\<rfloor>
      | PosInf \<Rightarrow> 0
      | NegInf \<Rightarrow> 0
      | NaN \<Rightarrow> 1)"

definition exact_span :: "HtmlElement \<Rightarrow> bool" where
  "exact_span col =
     (parseInt (attributes col ''colspan'') = NaN \<or>
      parseInt (attributes col ''colspan'') = Fin (of_int (cell_span col)))"

definition safe_spans :: "HtmlElement list \<Rightarrow> bool" where
  "safe_spans cols =
     (list_all exact_span cols \<and> sum_list (map (\<lambda>col. \<bar>cell_span col\<bar>) cols) < 2 ^ 53)"


text \<open>
  The column count in the specification's words: the maximum of 1 and, over the discovered
  rows, of the sum of the spans of the row's cells.
\<close>

definition span_sum :: "HtmlElement \<Rightarrow> int" where
  "span_sum row = sum_list (map cell_span (cells row))"

definition maxColumns :: "HtmlElement \<Rightarrow> int" where
  "maxColumns table = Max (insert 1 (set (map span_sum (discovered_rows table))))"

definition safe_rows :: "HtmlElement \<Rightarrow> bool" where
  "safe_rows table = list_all (\<lambda>row. safe_spans (cells row)) (discovered_rows table)"

text \<open>The merged style of a table, and the condition of the spacing model.\<close>

definition spacing_model :: "HtmlStyle \<Rightarrow> bool" where
  "spacing_model tableStyles =
     (truthy (tableStyles ''borderSpacing'') \<and> tableStyles ''borderCollapse'' \<noteq> Some ''collapse'')"

text \<open>The style property a cell is resolved to, if rendering it returns.\<close>

definition resolved :: "nat \<Rightarrow> HtmlElement \<Rightarrow> string \<Rightarrow> style_value option" where
  "resolved spreadLimit element property =
     (case renderCell spreadLimit element of Inl e \<Rightarrow> None | Inr baseStyles \<Rightarrow> baseStyles property)"

text \<open>
  The number a cell's width is the text of: the base percentage, or the parsed \<open>colspan\<close>
  times the base percentage.
\<close>

definition width_number :: "HtmlElement \<Rightarrow> number \<Rightarrow> number" where
  "width_number element colCount =
     (if parseInt (attributes element ''colspan'') = NaN then number_div (Fin 100) colCount
      else number_mul (parseInt (attributes element ''colspan'')) (number_div (Fin 100) colCount))"




section \<open>Example trees\<close>

definition element_node ::
  "string \<Rightarrow> (string \<times> string) list \<Rightarrow> HtmlStyle list \<Rightarrow> int \<Rightarrow> HtmlElement list \<Rightarrow>
   HtmlElement option \<Rightarrow> HtmlElement option \<Rightarrow> HtmlElement" where
  "element_node name attrs styles index children parent previous =
     HtmlElement ELEMENT_NODE name (map_of attrs) styles index children parent previous"

definition text_node :: HtmlElement where
  "text_node = HtmlElement TEXT_NODE [] Map.empty [] 0 [] None None"

definition example_td :: "(string \<times> string) list \<Rightarrow> int \<Rightarrow> HtmlElement option \<Rightarrow> HtmlElement" where
  "example_td attrs index parent = element_node ''TD'' attrs [] index [] parent None"

definition example_tr :: "string \<Rightarrow> HtmlElement list \<Rightarrow> HtmlElement option \<Rightarrow> HtmlElement" where
  "example_tr ident children parent = element_node ''TR'' [(''id'', ident)] [] 0 children parent None"

definition example_table :: "HtmlStyle list \<Rightarrow> HtmlElement list \<Rightarrow> HtmlElement" where
  "example_table styles children = element_node ''TABLE'' [] styles 0 children None None"

text \<open>A cell as the renderer sees it: inside a row inside the given table.\<close>

definition example_cell :: "HtmlElement \<Rightarrow> (string \<times> string) list \<Rightarrow> int \<Rightarrow> HtmlElement" where
  "example_cell table attrs index = example_td attrs index (Some (example_tr ''r'' [] (Some table)))"

text \<open>A table whose markup has a \<open>thead\<close> before a bare row, and a \<open>tbody\<close> after it.\<close>

definition interleaved_table :: HtmlElement where
  "interleaved_table =
     example_table []
       [element_node ''THEAD'' [] [] 0 [example_tr ''head'' [] None] None None,
        text_node,
        example_tr ''bare'' [] None,
        element_node ''TBODY'' [] [] 0 [example_tr ''body'' [] None] None None]"

definition empty_table :: HtmlElement where
  "empty_table = example_table [] [text_node, element_node ''CAPTION'' [] [] 0 [] None None]"

text \<open>Rows \<open>[ [td, td], [td colspan=3] ]\<close>.\<close>

definition three_column_table :: HtmlElement where
  "three_column_table =
     example_table []
       [example_tr ''a'' [example_td [] 0 None, example_td [] 1 None] None,
        example_tr ''b'' [example_td [(''colspan'', ''3'')] 0 None] None]"

text \<open>Rows \<open>[ [td, td, td, td], [td colspan=2, td, th] ]\<close>, with a border width.\<close>

definition four_column_table :: HtmlElement where
  "four_column_table =
     example_table [ [''borderWidth'' \<mapsto> ''1px''] ]
       [example_tr ''a''
          [example_td [] 0 None, example_td [] 1 None, example_td [] 2 None, example_td [] 3 None]
          None,
        example_tr ''b''
          [example_td [(''colspan'', ''2'')] 0 None, example_td [] 1 None,
           element_node ''TH'' [] [] 0 [] None None]
          None]"

text \<open>One row whose only cell has \<open>colspan="0"\<close>, and the table of this row.\<close>

definition zero_row :: HtmlElement where
  "zero_row = example_tr ''z'' [example_td [(''colspan'', ''0'')] 0 None] None"

definition zero_span_table :: HtmlElement where
  "zero_span_table = example_table [] [zero_row]"


text \<open>A table in the spacing model.\<close>

definition spaced_table :: HtmlElement where
  "spaced_table =
     example_table [ [''borderWidth'' \<mapsto> ''1px'', ''borderSpacing'' \<mapsto> ''9px''], [''borderSpacing'' \<mapsto> ''2px''] ]
       [example_tr ''a'' [example_td [] 0 None, example_td [] 1 None] None]"

text \<open>An ordered list and its items, each with its parent and its previous sibling.\<close>

definition example_ol :: "(string \<times> string) list \<Rightarrow> HtmlStyle list \<Rightarrow> HtmlElement" where
  "example_ol attrs styles = element_node ''OL'' attrs styles 0 [] None None"

definition example_li ::
  "(string \<times> string) list \<Rightarrow> int \<Rightarrow> HtmlElement \<Rightarrow> HtmlElement option \<Rightarrow> HtmlElement" where
  "example_li attrs index list previous = element_node ''LI'' attrs [] index [] (Some list) previous"

text \<open>
  The items of \<open><ol start="5"><li/><li/><li value="10"/><script/><li/></ol>\<close> and the
  \<open>script\<close> element between the last two.
\<close>

definition item0 :: "HtmlStyle list \<Rightarrow> HtmlElement" where
  "item0 styles = example_li [] 0 (example_ol [(''start'', ''5'')] styles) None"

definition item1 :: "HtmlStyle list \<Rightarrow> HtmlElement" where
  "item1 styles = example_li [] 1 (example_ol [(''start'', ''5'')] styles) (Some (item0 styles))"

definition item2 :: "HtmlStyle list \<Rightarrow> HtmlElement" where
  "item2 styles =
     example_li [(''value'', ''10'')] 2 (example_ol [(''start'', ''5'')] styles) (Some (item1 styles))"

definition script_between :: "HtmlStyle list \<Rightarrow> HtmlElement" where
  "script_between styles =
     element_node ''SCRIPT'' [] [] 0 [] (Some (example_ol [(''start'', ''5'')] styles))
       (Some (item2 styles))"

definition item3 :: "HtmlStyle list \<Rightarrow> HtmlElement" where
  "item3 styles =
     example_li [] 3 (example_ol [(''start'', ''5'')] styles) (Some (script_between styles))"

text \<open>
  The fourth item of a \<open>lower-roman\<close> list with \<open>start="7"\<close>, carrying \<open>value="10"\<close>.
\<close>

definition valued_roman_item :: HtmlElement where
  "valued_roman_item =
     example_li [(''value'', ''10'')] 3
       (example_ol [(''start'', ''7'')] [ [''listStyleType'' \<mapsto> ''lower-roman''] ]) None"

text \<open>The only item of \<open><ol style="list-style-type: lower-alpha"><li value="0"/></ol>\<close>.\<close>

definition alpha_item_zero :: HtmlElement where
  "alpha_item_zero =
     example_li [(''value'', ''0'')] 0 (example_ol [] [ [''listStyleType'' \<mapsto> ''lower-alpha''] ]) None"

text \<open>The only item of a list whose style is \<open>list-style: url(\<close>, without a closing parenthesis.\<close>

definition unclosed_url_item :: HtmlElement where
  "unclosed_url_item = example_li [] 0 (example_ol [] [ [''listStyle'' \<mapsto> ''url(''] ]) None"

text \<open>The only item of \<open><ol style="list-style-type: lower-alpha"><li value="10"/></ol>\<close>.\<close>

definition alpha_item_ten :: HtmlElement where
  "alpha_item_ten =
     example_li [(''value'', ''10'')] 0 (example_ol [] [ [''listStyleType'' \<mapsto> ''lower-alpha''] ]) None"

text \<open>
  A table with a caption and text between its parts; its header row has a \<open>th\<close> and a
  \<open>th colspan="2"\<close>, its bare row two \<open>td\<close> around a \<open>span\<close> and a text, its body row one
  \<open>td\<close> whose \<open>colspan\<close> does not parse, and its \<open>tfoot\<close> a row of five cells.
\<close>

definition mixed_table :: HtmlElement where
  "mixed_table =
     example_table []
       [text_node,
        element_node ''CAPTION'' [] [] 0 [] None None,
        element_node ''THEAD'' [] [] 0
          [example_tr ''head''
             [element_node ''TH'' [] [] 0 [] None None, text_node,
              element_node ''TH'' [(''colspan'', ''2'')] [] 1 [] None None] None] None None,
        example_tr ''bare''
          [example_td [] 0 None, element_node ''SPAN'' [] [] 0 [] None None, text_node,
           example_td [] 1 None] None,
        element_node ''TFOOT'' [] [] 0
          [example_tr ''foot''
             [example_td [] 0 None, example_td [] 1 None, example_td [] 2 None,
              example_td [] 3 None, example_td [] 4 None] None] None None,
        element_node ''TBODY'' [] [] 0
          [example_tr ''body'' [example_td [(''colspan'', ''x'')] 0 None] None] None None]"

text \<open>One row with the spans \<open>9007199254740992\<close>, 1 and 1.\<close>

definition rounding_row :: HtmlElement where
  "rounding_row =
     example_tr ''a''
       [example_td [(''colspan'', ''9007199254740992'')] 0 None, example_td [] 1 None,
        example_td [] 2 None] None"

definition rounding_table :: HtmlElement where
  "rounding_table = example_table [] [rounding_row]"

text \<open>A table of \<open>n\<close> rows, each with the single cell \<open>td colspan="0"\<close>.\<close>

definition rows_table :: "nat \<Rightarrow> HtmlElement" where
  "rows_table n = example_table [] (replicate n zero_row)"

text \<open>An engine whose call to \<open>Math.max\<close> accepts 131072 spread elements.\<close>

definition example_limit :: nat where
  "example_limit = 131072"

section \<open>Properties of \<open>toRoman\<close>\<close>

lemma append_roman_nonneg:
  "0 \<le> q \<Longrightarrow> append_roman q roman result = Some (result @ concat (replicate (nat q) roman))"
proof (induction "nat q" arbitrary: q result)
  case 0
  then have "q = 0" by simp
  then show ?case by (simp add: append_roman.simps)
next
  case (Suc k)
  then have q: "q \<noteq> 0" "0 \<le> q - 1" "k = nat (q - 1)" "nat q = Suc (nat (q - 1))"
    by auto
  have "append_roman q roman result = append_roman (q - 1) roman (result @ roman)"
    using q(1) by (subst append_roman.simps) simp
  also have "\<dots> = Some ((result @ roman) @ concat (replicate (nat (q - 1)) roman))"
    using Suc.hyps(1) [OF q(3) q(2)] .
  finally show ?case
    by (simp add: q(4))
qed

lemma append_roman_Some_nonneg:
  assumes "append_roman q roman result = Some y"
  shows "0 \<le> q"
proof (rule append_roman.raw_induct [where P = "\<lambda>q roman result y. 0 \<le> q", OF _ assms])
  fix f :: "int \<Rightarrow> string \<Rightarrow> string \<Rightarrow> string option" and q roman result y
  assume IH: "\<And>q roman result y. f q roman result = Some y \<Longrightarrow> 0 \<le> q"
    and step: "(if q \<noteq> 0 then f (q - 1) roman (result @ roman) else Some result) = Some y"
  show "0 \<le> q"
  proof (cases "q = 0")
    case True
    then show ?thesis by simp
  next
    case False
    with step have "f (q - 1) roman (result @ roman) = Some y" by simp
    from IH [OF this] show ?thesis by simp
  qed
qed

lemma append_roman_negative: "q < 0 \<Longrightarrow> append_roman q roman result = None"
  using append_roman_Some_nonneg [of q roman result] by (cases "append_roman q roman result") auto

lemma bigint_div_nonneg: "0 \<le> a \<Longrightarrow> 0 < b \<Longrightarrow> bigint_div a b = a div b"
  by (cases "a = 0") (simp_all add: bigint_div_def)

lemma js_rem_nonneg: "0 \<le> a \<Longrightarrow> 0 < b \<Longrightarrow> js_rem a b = a mod b"
  by (cases "a = 0") (simp_all add: js_rem_def)

lemma roman_greedy_div_mod:
  "0 < d \<Longrightarrow> 0 \<le> n \<Longrightarrow>
   roman_greedy ((d, r) # entries) n =
     concat (replicate (nat (n div d)) r) @ roman_greedy entries (n mod d)"
proof (induction "nat n" arbitrary: n rule: less_induct)
  case less
  show ?case
  proof (cases "d \<le> n")
    case True
    with less.prems have lt: "nat (n - d) < nat n" and nn: "0 \<le> n - d"
      by auto
    have dv: "n div d = (n - d) div d + 1"
      by (rule div_pos_geq [OF less.prems(1) True])
    have md: "n mod d = (n - d) mod d"
      by (rule mod_pos_geq [OF less.prems(1) True])
    have q0: "0 \<le> (n - d) div d"
      using nn less.prems(1) by (simp add: pos_imp_zdiv_nonneg_iff)
    have sc: "nat (n div d) = Suc (nat ((n - d) div d))"
      unfolding dv using q0 by linarith
    have "roman_greedy ((d, r) # entries) n = r @ roman_greedy ((d, r) # entries) (n - d)"
      using True less.prems(1) by (subst roman_greedy.simps) simp
    also have "\<dots> = r @ concat (replicate (nat ((n - d) div d)) r) @ roman_greedy entries ((n - d) mod d)"
      using less.hyps [OF lt less.prems(1) nn] by (simp only:)
    also have "\<dots> = concat (replicate (nat (n div d)) r) @ roman_greedy entries (n mod d)"
      unfolding sc md by simp
    finally show ?thesis .
  next
    case False
    with less.prems have "n div d = 0" "n mod d = n"
      by (simp_all add: div_pos_pos_trivial)
    with False show ?thesis by (subst roman_greedy.simps) simp
  qed
qed

lemma toRoman_forEach_nonneg:
  "\<forall>e \<in> set entries. 0 < fst e \<Longrightarrow> 0 \<le> num \<Longrightarrow>
   toRoman_forEach entries num result = Some (result @ roman_greedy entries num)"
proof (induction entries arbitrary: num result)
  case Nil
  then show ?case by (simp add: roman_greedy.simps(1))
next
  case (Cons e entries)
  obtain d r where e: "e = (d, r)" by (cases e)
  with Cons.prems have d: "0 < d" and rest: "\<forall>e \<in> set entries. 0 < fst e"
    by auto
  have q: "0 \<le> num div d" and m: "0 \<le> num mod d"
    using d Cons.prems(2) by (simp_all add: pos_imp_zdiv_nonneg_iff)
  show ?case
    using Cons.IH [OF rest m] d Cons.prems(2) q
    by (simp add: e bigint_div_nonneg js_rem_nonneg append_roman_nonneg roman_greedy_div_mod)
qed

lemma toRoman_forEach_negative:
  "\<forall>e \<in> set entries. 0 < fst e \<Longrightarrow> 1 \<in> fst ` set entries \<Longrightarrow> num < 0 \<Longrightarrow>
   toRoman_forEach entries num result = None"
proof (induction entries arbitrary: result)
  case Nil
  then show ?case by simp
next
  case (Cons e entries)
  obtain d r where e: "e = (d, r)" by (cases e)
  with Cons.prems have d: "0 < d" and rest: "\<forall>e \<in> set entries. 0 < fst e"
    by auto
  have sg: "sgn num = - 1" "sgn d = 1"
    using Cons.prems(3) d by simp_all
  show ?case
  proof (cases "\<bar>num\<bar> div d = 0")
    case True
    then have small: "\<bar>num\<bar> < d"
      using d by (auto simp: zdiv_eq_0_iff)
    then have "d \<noteq> 1" using Cons.prems(3) by auto
    with Cons.prems(2) e have one: "1 \<in> fst ` set entries" by auto
    have "bigint_div num d = 0" "js_rem num d = num"
      using True small Cons.prems(3) d by (simp_all add: bigint_div_def js_rem_def sg)
    then show ?thesis
      using Cons.IH [OF rest one Cons.prems(3)]
      by (simp add: e append_roman_nonneg)
  next
    case False
    have "0 \<le> \<bar>num\<bar> div d"
      using d by (simp add: pos_imp_zdiv_nonneg_iff)
    with False have "0 < \<bar>num\<bar> div d" by simp
    then have "bigint_div num d < 0"
      using d by (simp add: bigint_div_def sg)
    then show ?thesis
      by (simp add: e append_roman_negative)
  qed
qed

lemma conversationMap_positive: "\<forall>e \<in> set conversationMap. 0 < fst e"
  by (simp add: conversationMap_def)

lemma conversationMap_has_one: "1 \<in> fst ` set conversationMap"
  by (simp add: conversationMap_def)

lemma toRoman_nonneg: "0 \<le> num \<Longrightarrow> toRoman num = Some (roman_greedy conversationMap num)"
  unfolding toRoman_def
  using toRoman_forEach_nonneg [OF conversationMap_positive, of num "[]"] by simp

lemma toRoman_negative: "num < 0 \<Longrightarrow> toRoman num = None"
  unfolding toRoman_def
  by (rule toRoman_forEach_negative [OF conversationMap_positive conversationMap_has_one])

lemma roman_greedy_nonpos: "n \<le> 0 \<Longrightarrow> \<forall>e \<in> set entries. 0 < fst e \<Longrightarrow> roman_greedy entries n = []"
  by (induction entries) (auto simp: roman_greedy.simps)

text \<open>
  C8, amended. For every input \<open>num \<ge> 0\<close> the function returns the greedy descending
  substitution over the table (standard subtractive notation for \<open>num \<ge> 1\<close>), which is the
  empty string for \<open>0\<close>. Negative inputs are left out: there the first table entry whose
  truncated quotient is negative starts a countdown that never reaches zero
  (\<open>toRoman_negative\<close>).
\<close>

theorem toRoman_greedy:
  "(0 \<le> num \<longrightarrow> toRoman num = Some (roman_greedy conversationMap num)) \<and> toRoman 0 = Some []"
  using toRoman_nonneg [of num] toRoman_nonneg [of 0]
    roman_greedy_nonpos [OF _ conversationMap_positive, of 0]
  by simp

theorem toRoman_greedy_witness:
  "toRoman 1994 = Some ''MCMXCIV'' \<and> toRoman 4 = Some ''IV'' \<and> toRoman 0 = Some []"
  using toRoman_greedy [of 1994] toRoman_greedy [of 4]
  by (simp add: conversationMap_def roman_greedy.simps)

text \<open>
  C8 as stated fails for negative inputs: \<open>toRoman(-1)\<close> does not return the empty string
  (it does not return at all).
\<close>

theorem toRoman_negative_counterexample: "toRoman (- 1) \<noteq> Some []"
  using toRoman_negative [of "- 1"] by simp

lemma toRoman_examples:
  "toRoman 1 = Some ''I''" "toRoman 4 = Some ''IV''" "toRoman 9 = Some ''IX''"
  "toRoman 14 = Some ''XIV''" "toRoman 40 = Some ''XL''" "toRoman 3999 = Some ''MMMCMXCIX''"
  by (simp_all add: toRoman_nonneg conversationMap_def roman_greedy.simps)

section \<open>Row discovery\<close>

lemmas example_defs = element_node_def text_node_def example_td_def example_tr_def
  example_table_def example_cell_def

lemma fold_append_concat:
  "fold (\<lambda>x acc. acc @ f x) xs init = init @ concat (map f xs)"
  by (induction xs arbitrary: init) simp_all

text \<open>
  C9. The rows of a table are its direct \<open>tr\<close> children, followed by the \<open>tr\<close> children of
  each direct \<open>tbody\<close>/\<open>thead\<close> child in document order; bare rows come first wherever the
  sections stand in the markup, and a table without any row gives the empty list.
\<close>

theorem getRows_concat:
  "getRows table =
     childElements table (Some [''tr'']) @
     concat (map (\<lambda>section. childElements section (Some [''tr'']))
              (childElements table (Some [''tbody'', ''thead''])))
   \<and> (childElements table (Some [''tr'']) = [] \<and>
      (\<forall>section \<in> set (childElements table (Some [''tbody'', ''thead''])).
         childElements section (Some [''tr'']) = []) \<longrightarrow>
      getRows table = [])"
  by (simp add: getRows_def Let_def fold_append_concat)

theorem getRows_concat_witness:
  "map (\<lambda>row. attributes row ''id'') (getRows interleaved_table) =
     [Some ''bare'', Some ''head'', Some ''body''] \<and>
   getRows empty_table = []"
  using getRows_concat [of interleaved_table] getRows_concat [of empty_table]
  by (simp add: interleaved_table_def empty_table_def example_defs childElements_def
      toLowerCase_def)

section \<open>Exact arithmetic on safe integers\<close>

lemma round_half_even_of_int: "round_half_even (of_int z) = z"
  by (simp add: round_half_even_def)

lemma pow2_nonpos: "k \<le> 0 \<Longrightarrow> pow2 k = 1 / 2 ^ nat (- k)"
  by (cases "k = 0") (simp_all add: pow2_def)

lemma floor_log2_of_int:
  assumes "0 < m"
  shows "floor_log2 (of_int m) = bitlen m - 1"
proof -
  have q: "quotient_of (of_int m) = (m, 1)"
    by (metis quotient_of_int of_int_rat Rat.of_int_def)
  from bitlen_bounds [OF assms] have lo: "2 ^ nat (bitlen m - 1) \<le> m" by simp
  have nn: "0 \<le> bitlen m - 1"
    using assms bitlen_nonneg [of m] bitlen_eq_zero_iff [of m] by (cases "bitlen m = 0") auto
  have "(2::rat) ^ nat (bitlen m - 1) = of_int (2 ^ nat (bitlen m - 1))" by simp
  also have "\<dots> \<le> of_int m" using lo by (simp only: of_int_le_iff)
  finally have "\<not> (of_int m :: rat) < pow2 (bitlen m - 1)"
    using nn by (simp add: pow2_def)
  moreover have "bitlen 1 = 1" by (simp add: bitlen_alt_def)
  ultimately show ?thesis
    by (simp add: floor_log2_def q)
qed

text \<open>Every integer of magnitude below \<open>2^53\<close> is a double.\<close>

lemma binary64_of_int:
  assumes "\<bar>n\<bar> < 2 ^ 53"
  shows "binary64 (of_int n) = Fin (of_int n)"
proof (cases "n = 0")
  case True
  then show ?thesis by (simp add: binary64_def)
next
  case False
  define m where "m = \<bar>n\<bar>"
  have m: "0 < m" "m < 2 ^ 53" using False assms by (simp_all add: m_def)
  define e where "e = bitlen m - 1"
  have abs: "\<bar>of_int n :: rat\<bar> = of_int m" by (simp add: m_def)
  from bitlen_bounds [OF m(1)] have lo: "2 ^ nat (bitlen m - 1) \<le> m" by simp
  have e0: "0 \<le> e"
    using m(1) bitlen_nonneg [of m] bitlen_eq_zero_iff [of m]
    by (cases "bitlen m = 0") (auto simp: e_def)
  have "(2::int) ^ nat e < 2 ^ 53" using lo m(2) by (simp add: e_def)
  then have "nat e < 53" by (simp only: power_strict_increasing_iff [of 2] one_less_numeral_iff semiring_norm)
  then have e52: "e \<le> 52" by simp
  define j where "j = nat (52 - e)"
  have ulp: "pow2 (e - 52) = 1 / 2 ^ j"
    using e52 by (simp add: pow2_nonpos j_def)
  have fl: "floor_log2 (of_int m) = e"
    by (simp add: floor_log2_of_int [OF m(1)] e_def)
  have scaled: "(of_int m :: rat) / (1 / 2 ^ j) = of_int (m * 2 ^ j)" by simp
  have r: "of_int (round_half_even ((of_int m :: rat) / (1 / 2 ^ j))) * (1 / 2 ^ j) = (of_int m :: rat)"
    unfolding scaled round_half_even_of_int by simp
  have small: "\<not> pow2 1024 \<le> (of_int m :: rat)"
  proof -
    have "(of_int m :: rat) < of_int (2 ^ 53)" using m(2) by (simp only: of_int_less_iff)
    also have "\<dots> = (2::rat) ^ 53" by simp
    also have "\<dots> \<le> 2 ^ 1024" by (rule power_increasing) simp_all
    finally have "(of_int m :: rat) < 2 ^ nat 1024" by simp
    then show ?thesis unfolding pow2_def by simp
  qed
  have sg: "sgn (of_int n :: rat) * of_int m = of_int n"
    unfolding abs [symmetric] by (rule sgn_mult_abs)
  have ne: "(of_int n :: rat) \<noteq> 0" using False by simp
  have "binary64 (of_int n) =
      (let r = of_int (round_half_even (of_int m / pow2 (max e (- 1022) - 52))) * pow2 (max e (- 1022) - 52)
       in if pow2 1024 \<le> r then (if 0 < (of_int n :: rat) then PosInf else NegInf)
          else Fin (sgn (of_int n) * r))"
    using ne unfolding binary64_def abs fl by (simp only: Let_def if_False)
  also have "max e (- 1022) = e" using e0 by simp
  finally show ?thesis
    unfolding ulp Let_def r using small sg by (simp only: if_False)
qed

lemma number_add_int:
  "\<bar>a + b\<bar> < 2 ^ 53 \<Longrightarrow> number_add (Fin (of_int a)) (Fin (of_int b)) = Fin (of_int (a + b))"
  using binary64_of_int [of "a + b"] by simp

lemma number_sub_int:
  "\<bar>a - b\<bar> < 2 ^ 53 \<Longrightarrow> number_sub (Fin (of_int a)) (Fin (of_int b)) = Fin (of_int (a - b))"
  using binary64_of_int [of "a - b"] by (simp add: number_sub_def)

lemma binary64_small:
  "binary64 0 = Fin 0" "binary64 1 = Fin 1" "binary64 (- 1) = Fin (- 1)"
  "binary64 2 = Fin 2" "binary64 3 = Fin 3" "binary64 4 = Fin 4" "binary64 5 = Fin 5"
  "binary64 6 = Fin 6" "binary64 9 = Fin 9" "binary64 10 = Fin 10" "binary64 11 = Fin 11"
  "binary64 100 = Fin 100"
  using binary64_of_int [of 0] binary64_of_int [of 1] binary64_of_int [of "- 1"]
    binary64_of_int [of 2] binary64_of_int [of 3] binary64_of_int [of 4] binary64_of_int [of 5]
    binary64_of_int [of 6] binary64_of_int [of 9] binary64_of_int [of 10] binary64_of_int [of 11]
    binary64_of_int [of 100]
  by simp_all

lemma number_sub_self: "number_sub (Fin x) (Fin x) = Fin 0"
  by (simp add: number_sub_def binary64_small)

text \<open>Powers of two by repeated squaring, for evaluation.\<close>

lemma pow2_code [code]:
  "pow2 k = (if k < 0 then 1 / pow2 (- k) else if k = 0 then 1
             else if even k then (let h = pow2 (k div 2) in h * h) else 2 * pow2 (k - 1))"
proof -
  have ev: "pow2 k = pow2 (k div 2) * pow2 (k div 2)" if "0 < k" "even k"
  proof -
    from that obtain j where j: "k = 2 * j" by (auto elim: evenE)
    with that have "0 \<le> j" by simp
    then have "nat (2 * j) = nat j + nat j" by simp
    then show ?thesis using \<open>0 \<le> j\<close> by (simp add: j pow2_def power_add)
  qed
  have od: "pow2 k = 2 * pow2 (k - 1)" if "0 < k"
  proof -
    have "nat k = Suc (nat (k - 1))" using that by simp
    then show ?thesis using that by (simp add: pow2_def)
  qed
  show ?thesis
    using ev od by (cases "k < 0") (auto simp: Let_def pow2_def)
qed

lemma parseInt_examples:
  "parseInt None = NaN" "parseInt (Some []) = NaN" "parseInt (Some ''abc'') = NaN"
  "parseInt (Some ''x'') = NaN"
  "parseInt (Some ''0'') = Fin 0" "parseInt (Some ''2'') = Fin 2" "parseInt (Some ''3'') = Fin 3"
  "parseInt (Some ''5'') = Fin 5" "parseInt (Some ''7'') = Fin 7" "parseInt (Some ''10'') = Fin 10"
  "parseInt (Some ''-2'') = Fin (- 2)" "parseInt (Some ''3abc'') = Fin 3"
  "parseInt (Some '' +7px'') = Fin 7"
  "parseInt (Some [CHR 0xC2, CHR 0xA0, CHR ''3'']) = Fin 3"
  "parseInt (Some ''9007199254740992'') = Fin 9007199254740992"
  "parseInt (Some ''9007199254740993'') = Fin 9007199254740992"
  "parseInt (Some ''10000000000000000000'') = Fin 10000000000000000000"
  by code_simp+

lemma parseInt_not_NaN_truthy: "parseInt a \<noteq> NaN \<Longrightarrow> truthy a"
  by (cases a) (auto simp: truthy_def parseInt_examples)

lemma number_toString_examples:
  "number_toString (Fin 1) = ''1''" "number_toString (Fin 2) = ''2''"
  "number_toString (Fin 6) = ''6''" "number_toString (Fin 10) = ''10''"
  "number_toString (Fin 11) = ''11''" "number_toString (Fin (- 3)) = ''-3''"
  "number_toString PosInf = ''Infinity''" "number_toString NaN = ''NaN''"
  by code_simp+

lemma toFixed_examples:
  "toFixed (number_mul (Fin 2) (number_div (Fin 100) (Fin 4))) 5 = ''50.00000''"
  "toFixed (number_div (Fin 100) (Fin 4)) 5 = ''25.00000''"
  "toFixed (number_div (Fin 100) (Fin 3)) 5 = ''33.33333''"
  "toFixed (number_div (Fin 100) (Fin 2)) 5 = ''50.00000''"
  "toFixed (number_mul (Fin 3) (number_div (Fin 100) (Fin 3))) 5 = ''100.00000''"
  "toFixed (number_mul (Fin (- 2)) (number_div (Fin 100) (Fin 4))) 5 = ''-50.00000''"
  "toFixed (Fin 0) 5 = ''0.00000''"
  "toFixed (number_mul (Fin 0) (number_div (Fin 100) (Fin 1))) 5 = ''0.00000''"
  "toFixed NaN 5 = ''NaN''"
  "toFixed (number_mul (Fin 10000000000000000000) (number_div (Fin 100) (Fin 1))) 5 = ''1e+21''"
  by code_simp+














section \<open>Column count\<close>

lemma childElements_element_children:
  "childElements node (Some names) = element_children names node"
  by (simp add: childElements_def element_children_def tag_def)

lemma getRows_discovered_rows: "getRows table = discovered_rows table"
proof -
  have "element_children [''tbody'', ''thead''] table = element_children [''thead'', ''tbody''] table"
    by (auto simp: element_children_def intro: filter_cong)
  then show ?thesis
    by (simp add: getRows_def discovered_rows_def childElements_element_children Let_def
        fold_append_concat)
qed

lemma row_colCount_cells: "row_colCount row = fold add_colspan (cells row) (Fin 0)"
  by (simp add: row_colCount_def cells_def childElements_element_children)


lemma getMaxColumns_Some:
  "getMaxColumns spreadLimit (Some table) =
     (if spreadLimit < length (discovered_rows table) then Inl RangeError
      else Inr (Math_max (Fin 1 # map row_colCount (discovered_rows table))))"
  by (simp add: getMaxColumns_def getRows_discovered_rows Let_def)

lemma add_colspan_exact:
  assumes "exact_span col" and "\<bar>c\<bar> + \<bar>cell_span col\<bar> < 2 ^ 53"
  shows "add_colspan col (Fin (of_int c)) = Fin (of_int (c + cell_span col))"
proof (cases "parseInt (attributes col ''colspan'') = NaN")
  case True
  then have "cell_span col = 1" by (simp add: cell_span_def)
  moreover have "number_add (Fin (of_int c)) (Fin (of_int 1)) = Fin (of_int (c + 1))"
    using assms(2) \<open>cell_span col = 1\<close> by (intro number_add_int) simp
  ultimately show ?thesis using True by (simp add: add_colspan_def isNaN_def)
next
  case False
  with assms(1) have p: "parseInt (attributes col ''colspan'') = Fin (of_int (cell_span col))"
    by (simp add: exact_span_def)
  have "number_add (Fin (of_int c)) (Fin (of_int (cell_span col))) = Fin (of_int (c + cell_span col))"
    using assms(2) by (intro number_add_int) simp
  then show ?thesis using p by (simp add: add_colspan_def isNaN_def)
qed

lemma fold_add_colspan_exact:
  assumes "list_all exact_span cols"
    and "\<bar>c\<bar> + sum_list (map (\<lambda>col. \<bar>cell_span col\<bar>) cols) < 2 ^ 53"
  shows "fold add_colspan cols (Fin (of_int c)) = Fin (of_int (c + sum_list (map cell_span cols)))"
  using assms
proof (induction cols arbitrary: c)
  case Nil
  then show ?case by simp
next
  case (Cons col cols)
  have nn: "0 \<le> sum_list (map (\<lambda>col. \<bar>cell_span col\<bar>) cols)"
    by (rule sum_list_nonneg) auto
  have step: "add_colspan col (Fin (of_int c)) = Fin (of_int (c + cell_span col))"
    using Cons.prems nn by (intro add_colspan_exact) simp_all
  have "fold add_colspan cols (Fin (of_int (c + cell_span col)))
      = Fin (of_int (c + cell_span col + sum_list (map cell_span cols)))"
    using Cons.prems by (intro Cons.IH) simp_all
  then show ?case by (simp add: step add.assoc)
qed

lemma row_colCount_exact:
  assumes "safe_spans (cells row)"
  shows "row_colCount row = Fin (of_int (span_sum row))"
  using fold_add_colspan_exact [of "cells row" 0] assms
  by (simp add: row_colCount_cells safe_spans_def span_sum_def)

lemma fold_highest_int:
  "fold (\<lambda>value highest. if number_less highest value then value else highest)
     (map (\<lambda>i. Fin (of_int i)) xs) (Fin (of_int a)) = Fin (of_int (fold max xs a))"
  by (induction xs arbitrary: a) (simp_all add: max_def)

lemma Math_max_int:
  "Math_max (Fin 1 # map (\<lambda>i. Fin (of_int i)) xs) = Fin (of_int (Max (insert 1 (set xs))))"
proof -
  have "fold (\<lambda>value highest. if number_less highest value then value else highest)
     (map (\<lambda>i. Fin (of_int i)) xs) (Fin (of_int 1)) = Fin (of_int (fold max xs 1))"
    by (rule fold_highest_int)
  moreover have "fold max xs (1::int) = Max (insert 1 (set xs))"
    using Max.set_eq_fold [of 1 xs] by simp
  ultimately show ?thesis
    by (auto simp: Math_max_def)
qed

lemma getMaxColumns_exact:
  assumes "length (discovered_rows table) \<le> spreadLimit" and "safe_rows table"
  shows "getMaxColumns spreadLimit (Some table) = Inr (Fin (of_int (maxColumns table)))"
proof -
  have eq: "map row_colCount (discovered_rows table)
      = map (\<lambda>i. Fin (of_int i)) (map span_sum (discovered_rows table))"
    using assms(2) by (simp add: row_colCount_exact list_all_iff safe_rows_def)
  show ?thesis
    using assms(1)
    by (simp add: getMaxColumns_Some eq Math_max_int maxColumns_def del: map_map)
qed

text \<open>The examples.\<close>

lemma tag_examples:
  "tag (example_td attrs index parent) = ''td''"
  "tag (example_tr ident children parent) = ''tr''"
  "tag (example_table styles children) = ''table''"
  "tag (example_cell table attrs index) = ''td''"
  "tag zero_row = ''tr''" "tag rounding_row = ''tr''"
  by (simp_all add: tag_def example_defs toLowerCase_def zero_row_def rounding_row_def)

lemma discovered_rows_rows_table: "discovered_rows (rows_table n) = replicate n zero_row"
proof -
  have "nodeType zero_row = ELEMENT_NODE"
    by (simp add: zero_row_def example_defs)
  then show ?thesis
    by (simp add: discovered_rows_def element_children_def rows_table_def example_table_def
        element_node_def tag_examples)
qed

lemma discovered_rows_examples:
  "discovered_rows empty_table = []"
  "discovered_rows rounding_table = [rounding_row]"
  "map (\<lambda>row. attributes row ''id'') (discovered_rows mixed_table)
     = [Some ''bare'', Some ''head'', Some ''body'']"
  by (simp_all add: discovered_rows_def element_children_def tag_def toLowerCase_def
      empty_table_def rounding_table_def rounding_row_def mixed_table_def example_defs)






section \<open>Cells\<close>

lemma closest_find:
  "closest selector element = find (\<lambda>a. tag a \<in> set selector) (element # ancestors element)"
proof (induction selector element rule: closest.induct)
  case (1 selector element)
  show ?case
  proof (cases "parentNode element")
    case None
    then show ?thesis
      by (subst closest.simps, subst ancestors.simps) simp
  next
    case (Some parent)
    then show ?thesis
      using 1 [OF _ Some]
      by (subst closest.simps, subst ancestors.simps) simp
  qed
qed





lemma renderCell_table:
  "closest [''table''] element = Some table \<Longrightarrow>
   renderCell spreadLimit element =
     (case getMaxColumns spreadLimit (Some table) of
        Inl e \<Rightarrow> Inl e
      | Inr colCount \<Rightarrow>
          Inr ((cell_borders (reduce_assign (style table)) (indexOfType element))
                 (''width'' \<mapsto> Str (cell_width element colCount))))"
  by (simp add: renderCell_def Let_def)

lemma cell_width_number:
  "cell_width element colCount = toFixed (width_number element colCount) 5 @ ''%''"
  using parseInt_not_NaN_truthy [of "attributes element ''colspan''"]
  by (auto simp: cell_width_def width_number_def Let_def isNaN_def)

lemma resolved_width:
  assumes "closest [''table''] element = Some table"
    and "getMaxColumns spreadLimit (Some table) = Inr colCount"
  shows "resolved spreadLimit element ''width''
           = Some (Str (toFixed (width_number element colCount) 5 @ ''%''))"
  using assms by (simp add: resolved_def renderCell_table cell_width_number)


lemma ancestors_examples:
  "ancestors (example_td attrs index None) = []"
  "ancestors (example_cell (example_table styles children) attrs index)
     = [example_tr ''r'' [] (Some (example_table styles children)), example_table styles children]"
  by (simp_all add: example_defs ancestors.simps)

lemma closest_example_cell:
  "closest [''table''] (example_cell (example_table styles children) attrs index)
     = Some (example_table styles children)"
  by (simp add: closest_find ancestors_examples tag_examples)

lemma closest_table_examples:
  "closest [''table''] (example_cell four_column_table attrs index) = Some four_column_table"
  "closest [''table''] (example_cell spaced_table attrs index) = Some spaced_table"
  "closest [''table''] (example_cell zero_span_table attrs index) = Some zero_span_table"
  "closest [''table''] (example_cell three_column_table attrs index) = Some three_column_table"
  "closest [''table''] (example_cell empty_table attrs index) = Some empty_table"
  "closest [''table''] (example_cell (rows_table n) attrs index) = Some (rows_table n)"
  by (simp_all add: four_column_table_def spaced_table_def zero_span_table_def
      three_column_table_def empty_table_def rows_table_def closest_example_cell)

lemma table_columns_examples:
  "length (discovered_rows four_column_table) = 2" "safe_rows four_column_table"
  "maxColumns four_column_table = 4"
  "length (discovered_rows three_column_table) = 2" "safe_rows three_column_table"
  "maxColumns three_column_table = 3"
  "length (discovered_rows spaced_table) = 1" "safe_rows spaced_table"
  "maxColumns spaced_table = 2"
  by (simp_all add: safe_rows_def safe_spans_def exact_span_def maxColumns_def span_sum_def
      cells_def cell_span_def discovered_rows_def element_children_def tag_def toLowerCase_def
      four_column_table_def three_column_table_def spaced_table_def example_defs
      parseInt_examples)

lemma getMaxColumns_examples:
  "getMaxColumns example_limit (Some four_column_table) = Inr (Fin 4)"
  "getMaxColumns example_limit (Some three_column_table) = Inr (Fin 3)"
  "getMaxColumns example_limit (Some spaced_table) = Inr (Fin 2)"
  "getMaxColumns example_limit (Some empty_table) = Inr (Fin 1)"
  "getMaxColumns example_limit (Some (rows_table 150000)) = Inl RangeError"
  using getMaxColumns_exact [of four_column_table example_limit]
    getMaxColumns_exact [of three_column_table example_limit]
    getMaxColumns_exact [of spaced_table example_limit]
  by (simp_all add: table_columns_examples example_limit_def getMaxColumns_Some
      discovered_rows_examples discovered_rows_rows_table Math_max_def)



lemma renderCell_many_rows:
  "renderCell example_limit (example_cell (rows_table 150000) attrs index) = Inl RangeError"
  by (simp add: renderCell_table closest_table_examples getMaxColumns_examples)



subsection \<open>Border model\<close>

lemma cell_borders_spacing:
  assumes "spacing_model tableStyles"
  shows "cell_borders tableStyles index ''margin'' = map_option Str (tableStyles ''borderSpacing'')"
    and "cell_borders tableStyles index ''margin'' \<noteq> None"
    and "cell_borders tableStyles index ''borderRightWidth'' = None"
    and "cell_borders tableStyles index ''borderBottomWidth'' = None"
    and "cell_borders tableStyles index ''borderLeftWidth'' = None"
    and "cell_borders tableStyles index ''borderTopWidth'' = None"
  using assms
  by (auto simp: cell_borders_def spacing_model_def truthy_def Let_def split: option.splits)

lemma cell_borders_collapse:
  assumes "\<not> spacing_model tableStyles"
  shows "cell_borders tableStyles index ''borderRightWidth'' = Some (Num 0)"
    and "cell_borders tableStyles index ''borderBottomWidth'' = Some (Num 0)"
    and "cell_borders tableStyles index ''borderLeftWidth'' =
           (if index \<noteq> 0 then map_option Str (tableStyles ''borderWidth'') else None)"
    and "cell_borders tableStyles index ''borderTopWidth'' =
           (if index \<noteq> 0 then map_option Str (tableStyles ''borderWidth'') else None)"
    and "cell_borders tableStyles index ''margin'' = None"
  using assms
  by (auto simp: cell_borders_def spacing_model_def Let_def)

lemma renderCell_Inr:
  assumes "closest [''table''] element = Some table"
    and "renderCell spreadLimit element = Inr baseStyles"
  shows "\<exists>colCount. getMaxColumns spreadLimit (Some table) = Inr colCount \<and>
           baseStyles = (cell_borders (reduce_assign (style table)) (indexOfType element))
                          (''width'' \<mapsto> Str (toFixed (width_number element colCount) 5 @ ''%''))"
  using assms(2) unfolding renderCell_table [OF assms(1)]
  by (cases "getMaxColumns spreadLimit (Some table)") (auto simp: cell_width_number)

text \<open>
  C5. A cell whose nearest table has no more discovered rows than \<open>Math.max\<close> accepts is
  rendered with a style, and every style a cell is rendered with has these properties. Its
  width is the percentage computed from the column count, in either border model. With the
  table's merged style in the spacing model (a non-empty \<open>borderSpacing\<close> and a
  \<open>borderCollapse\<close> other than \<open>collapse\<close>), the margin is the spacing value and no border
  width of the cell is set. Otherwise the right and bottom border widths are 0, the left and
  top border widths are the table's border width exactly when the cell's \<open>indexOfType\<close> is
  not 0 and are not set when it is 0, and there is no margin.
\<close>

theorem cell_border_model:
  assumes "closest [''table''] element = Some table"
  shows "(length (discovered_rows table) \<le> spreadLimit \<longrightarrow>
            (\<exists>baseStyles. renderCell spreadLimit element = Inr baseStyles)) \<and>
     (\<forall>baseStyles. renderCell spreadLimit element = Inr baseStyles \<longrightarrow>
        (\<exists>colCount. getMaxColumns spreadLimit (Some table) = Inr colCount \<and>
           baseStyles ''width'' = Some (Str (toFixed (width_number element colCount) 5 @ ''%''))) \<and>
        (spacing_model (reduce_assign (style table)) \<longrightarrow>
           baseStyles ''margin'' = map_option Str (reduce_assign (style table) ''borderSpacing'') \<and>
           baseStyles ''margin'' \<noteq> None \<and>
           baseStyles ''borderRightWidth'' = None \<and> baseStyles ''borderBottomWidth'' = None \<and>
           baseStyles ''borderLeftWidth'' = None \<and> baseStyles ''borderTopWidth'' = None) \<and>
        (\<not> spacing_model (reduce_assign (style table)) \<longrightarrow>
           baseStyles ''borderRightWidth'' = Some (Num 0) \<and>
           baseStyles ''borderBottomWidth'' = Some (Num 0) \<and>
           baseStyles ''borderLeftWidth'' =
             (if indexOfType element \<noteq> 0
              then map_option Str (reduce_assign (style table) ''borderWidth'') else None) \<and>
           baseStyles ''borderTopWidth'' =
             (if indexOfType element \<noteq> 0
              then map_option Str (reduce_assign (style table) ''borderWidth'') else None) \<and>
           baseStyles ''margin'' = None))"
proof (intro conjI allI impI)
  assume "length (discovered_rows table) \<le> spreadLimit"
  then show "\<exists>baseStyles. renderCell spreadLimit element = Inr baseStyles"
    by (simp add: renderCell_table [OF assms] getMaxColumns_Some)
next
  fix baseStyles
  assume "renderCell spreadLimit element = Inr baseStyles"
  from renderCell_Inr [OF assms this]
  show "\<exists>colCount. getMaxColumns spreadLimit (Some table) = Inr colCount \<and>
      baseStyles ''width'' = Some (Str (toFixed (width_number element colCount) 5 @ ''%''))"
    by auto
next
  fix baseStyles
  assume r: "renderCell spreadLimit element = Inr baseStyles"
    and s: "spacing_model (reduce_assign (style table))"
  from renderCell_Inr [OF assms r] obtain colCount where
    b: "baseStyles = (cell_borders (reduce_assign (style table)) (indexOfType element))
                       (''width'' \<mapsto> Str (toFixed (width_number element colCount) 5 @ ''%''))"
    by auto
  show "baseStyles ''margin'' = map_option Str (reduce_assign (style table) ''borderSpacing'')"
    "baseStyles ''margin'' \<noteq> None"
    "baseStyles ''borderRightWidth'' = None" "baseStyles ''borderBottomWidth'' = None"
    "baseStyles ''borderLeftWidth'' = None" "baseStyles ''borderTopWidth'' = None"
    using cell_borders_spacing [OF s, of "indexOfType element"] by (simp_all add: b)
next
  fix baseStyles
  assume r: "renderCell spreadLimit element = Inr baseStyles"
    and s: "\<not> spacing_model (reduce_assign (style table))"
  from renderCell_Inr [OF assms r] obtain colCount where
    b: "baseStyles = (cell_borders (reduce_assign (style table)) (indexOfType element))
                       (''width'' \<mapsto> Str (toFixed (width_number element colCount) 5 @ ''%''))"
    by auto
  show "baseStyles ''borderRightWidth'' = Some (Num 0)"
    "baseStyles ''borderBottomWidth'' = Some (Num 0)"
    "baseStyles ''borderLeftWidth'' =
       (if indexOfType element \<noteq> 0
        then map_option Str (reduce_assign (style table) ''borderWidth'') else None)"
    "baseStyles ''borderTopWidth'' =
       (if indexOfType element \<noteq> 0
        then map_option Str (reduce_assign (style table) ''borderWidth'') else None)"
    "baseStyles ''margin'' = None"
    using cell_borders_collapse [OF s, of "indexOfType element"] by (simp_all add: b)
qed

lemma indexOfType_example_cell: "indexOfType (example_cell table attrs index) = index"
  by (simp add: example_defs)

lemma attributes_example_cell:
  "attributes (example_cell table attrs index) = map_of attrs"
  by (simp add: example_defs)

lemma tableStyles_examples:
  "\<not> spacing_model (reduce_assign (style four_column_table))"
  "reduce_assign (style four_column_table) ''borderWidth'' = Some ''1px''"
  "spacing_model (reduce_assign (style spaced_table))"
  "reduce_assign (style spaced_table) ''borderSpacing'' = Some ''2px''"
  "reduce_assign (style spaced_table) ''borderWidth'' = Some ''1px''"
  "\<not> spacing_model (reduce_assign (style (rows_table n)))"
  by (simp_all add: four_column_table_def spaced_table_def rows_table_def example_defs
      reduce_assign_def spacing_model_def truthy_def map_add_def)

lemma cell_width_examples:
  "toFixed (width_number (example_cell spaced_table [] 0) (Fin 2)) 5 = ''50.00000''"
  "toFixed (width_number (example_cell four_column_table [(''colspan'', ''2'')] 0) (Fin 4)) 5
     = ''50.00000''"
  "toFixed (width_number (example_cell four_column_table [] 1) (Fin 4)) 5 = ''25.00000''"
  "toFixed (width_number (example_cell three_column_table [(''colspan'', ''3abc'')] 1) (Fin 3)) 5
     = ''100.00000''"
  "toFixed (width_number (example_cell four_column_table [(''colspan'', ''-2'')] 1) (Fin 4)) 5
     = ''-50.00000''"
  "toFixed (width_number (example_cell zero_span_table [(''colspan'', ''0'')] 0) (Fin 1)) 5
     = ''0.00000''"
  "toFixed (width_number (example_cell empty_table [(''colspan'', ''10000000000000000000'')] 0)
     (Fin 1)) 5 = ''1e+21''"
  by (simp_all add: width_number_def attributes_example_cell parseInt_examples toFixed_examples
      del: number_mul.simps number_div.simps)

theorem cell_border_model_witness:
  "resolved example_limit (example_cell four_column_table [] 0) ''borderRightWidth'' = Some (Num 0) \<and>
   resolved example_limit (example_cell four_column_table [] 0) ''borderBottomWidth'' = Some (Num 0) \<and>
   resolved example_limit (example_cell four_column_table [] 0) ''borderLeftWidth'' = None \<and>
   resolved example_limit (example_cell four_column_table [] 0) ''borderTopWidth'' = None \<and>
   resolved example_limit (example_cell four_column_table [] 1) ''borderLeftWidth'' = Some (Str ''1px'') \<and>
   resolved example_limit (example_cell four_column_table [] 1) ''borderTopWidth'' = Some (Str ''1px'') \<and>
   resolved example_limit (example_cell four_column_table [] 1) ''borderRightWidth'' = Some (Num 0) \<and>
   resolved example_limit (example_cell spaced_table [] 1) ''margin'' = Some (Str ''2px'') \<and>
   resolved example_limit (example_cell spaced_table [] 1) ''borderRightWidth'' = None \<and>
   resolved example_limit (example_cell spaced_table [] 1) ''borderLeftWidth'' = None \<and>
   resolved example_limit (example_cell spaced_table [] 1) ''width'' = Some (Str ''50.00000%'')"
proof -
  note four = cell_border_model [OF closest_table_examples(1), of example_limit]
  note spaced = cell_border_model [OF closest_table_examples(2), of example_limit]
  from four [of "[]" 0] obtain first where
    first: "renderCell example_limit (example_cell four_column_table [] 0) = Inr first"
    by (auto simp: table_columns_examples example_limit_def)
  from four [of "[]" 1] obtain second where
    second: "renderCell example_limit (example_cell four_column_table [] 1) = Inr second"
    by (auto simp: table_columns_examples example_limit_def)
  from spaced [of "[]" 1] obtain third where
    third: "renderCell example_limit (example_cell spaced_table [] 1) = Inr third"
    by (auto simp: table_columns_examples example_limit_def)
  have "first ''borderRightWidth'' = Some (Num 0) \<and> first ''borderBottomWidth'' = Some (Num 0) \<and>
      first ''borderLeftWidth'' = None \<and> first ''borderTopWidth'' = None"
    using four [of "[]" 0] first by (simp add: tableStyles_examples indexOfType_example_cell)
  moreover have "second ''borderLeftWidth'' = Some (Str ''1px'') \<and>
      second ''borderTopWidth'' = Some (Str ''1px'') \<and> second ''borderRightWidth'' = Some (Num 0)"
    using four [of "[]" 1] second by (simp add: tableStyles_examples indexOfType_example_cell)
  moreover have "third ''margin'' = Some (Str ''2px'') \<and> third ''borderRightWidth'' = None \<and>
      third ''borderLeftWidth'' = None \<and> third ''width'' = Some (Str ''50.00000%'')"
    using spaced [of "[]" 1] third
    by (simp add: tableStyles_examples getMaxColumns_examples)
      (simp add: width_number_def attributes_example_cell parseInt_examples toFixed_examples
        del: number_div.simps)
  ultimately show ?thesis
    by (simp add: resolved_def first second third)
qed

theorem cell_width_not_border_counterexample:
  "spacing_model (reduce_assign (style spaced_table)) \<and>
   reduce_assign (style spaced_table) ''borderWidth'' = Some ''1px'' \<and>
   resolved example_limit (example_cell spaced_table [] 0) ''width'' = Some (Str ''50.00000%'') \<and>
   \<not> spacing_model (reduce_assign (style (rows_table 150000))) \<and>
   resolved example_limit (example_cell (rows_table 150000) [] 0) ''borderRightWidth'' = None"
proof -
  have "resolved example_limit (example_cell spaced_table [] 0) ''width'' = Some (Str ''50.00000%'')"
    by (simp add: resolved_width [OF closest_table_examples(2) getMaxColumns_examples(3)]
        cell_width_examples)
  moreover have "resolved example_limit (example_cell (rows_table 150000) [] 0) ''borderRightWidth'' = None"
    by (simp add: resolved_def renderCell_many_rows)
  ultimately show ?thesis
    by (simp add: tableStyles_examples)
qed

subsection \<open>Width\<close>





subsection \<open>Parsed spans\<close>








section \<open>List numbering\<close>

lemma walk_find:
  "walk currentIndex updatedIndex element =
     (case find has_value (sibling_chain element) of
        None \<Rightarrow> updatedIndex
      | Some sibling \<Rightarrow>
          number_sub
            (number_add (value_of sibling)
               (number_sub (index_number currentIndex) (index_number (indexOfType sibling))))
            (Fin 1))"
proof (induction currentIndex updatedIndex element rule: walk.induct)
  case (1 currentIndex updatedIndex currentElement)
  show ?case
  proof (cases "has_value currentElement")
    case True
    then show ?thesis
      by (subst walk.simps, subst sibling_chain.simps)
        (auto simp: has_value_def value_of_def isNaN_def Let_def)
  next
    case False
    show ?thesis
    proof (cases "previousElementSibling currentElement")
      case None
      with False show ?thesis
        by (subst walk.simps, subst sibling_chain.simps)
          (auto simp: has_value_def isNaN_def Let_def split: option.splits)
    next
      case (Some sibling)
      have step: "walk currentIndex updatedIndex currentElement = walk currentIndex updatedIndex sibling"
        using False Some
        by (subst walk.simps) (auto simp: has_value_def isNaN_def Let_def split: option.splits)
      have ih: "walk currentIndex updatedIndex sibling =
         (case find has_value (sibling_chain sibling) of
            None \<Rightarrow> updatedIndex
          | Some s \<Rightarrow>
              number_sub
                (number_add (value_of s)
                   (number_sub (index_number currentIndex) (index_number (indexOfType s))))
                (Fin 1))"
      proof (cases "tag currentElement \<noteq> ''li''")
        case True
        from "1.IH"(1) [OF True Some] show ?thesis .
      next
        case False
        with \<open>\<not> has_value currentElement\<close>
        have n: "\<not> \<not> isNaN (parseInt (attributes currentElement ''value''))"
          by (simp add: has_value_def isNaN_def)
        from "1.IH"(2) [OF False refl n Some] show ?thesis .
      qed
      show ?thesis
        unfolding step ih using False Some
        by (subst (2) sibling_chain.simps) simp
    qed
  qed
qed

lemma li_updatedIndex_find:
  "li_updatedIndex element parent =
     (case find has_value (sibling_chain element) of
        None \<Rightarrow> number_add (index_number (indexOfType element)) (start_offset parent)
      | Some sibling \<Rightarrow>
          number_sub
            (number_add (value_of sibling)
               (number_sub (index_number (indexOfType element)) (index_number (indexOfType sibling))))
            (Fin 1))"
  by (simp add: li_updatedIndex_def Let_def walk_find start_offset_def isNaN_def
      cong: option.case_cong)

lemma li_decimal:
  assumes "li_ordered element = Inr True" and "parentNode element = Some parent"
    and "decimal_style (li_listStyleType element)"
  shows "li element = Some (Inr (Bullet_Text
           (number_toString (number_add (li_updatedIndex element parent) (Fin 1)) @ ''.'')))"
  using assms by (simp add: li_def ordered_bullet_def decimal_style_def Let_def)


lemma find_refine:
  "find P xs = Some p \<Longrightarrow> (\<And>x. Q x \<Longrightarrow> P x) \<Longrightarrow> Q p \<Longrightarrow> find Q xs = Some p"
  by (induction xs) (auto split: if_splits)

lemma find_has_value_previous:
  assumes "\<not> has_value element" and "previous_li element = Some p" and "has_value p"
  shows "find has_value (sibling_chain element) = Some p"
proof -
  have "\<exists>xs. sibling_chain element = element # xs"
    by (subst sibling_chain.simps) blast
  then have "sibling_chain element = element # tl (sibling_chain element)"
    by auto
  then have "find has_value (sibling_chain element) = find has_value (tl (sibling_chain element))"
    using assms(1) by (metis find.simps(2))
  also have "\<dots> = Some p"
    using assms(2) unfolding previous_li_def
    by (rule find_refine) (simp_all add: has_value_def assms(3) [unfolded has_value_def])
  finally show ?thesis .
qed

lemma find_has_value_self: "has_value element \<Longrightarrow> find has_value (sibling_chain element) = Some element"
  by (subst sibling_chain.simps) simp

lemma walk_index_exact:
  assumes "\<bar>v\<bar> + \<bar>currentIndex\<bar> + \<bar>index\<bar> + 1 < 2 ^ 53"
  shows "number_sub
           (number_add (Fin (of_int v)) (number_sub (index_number currentIndex) (index_number index)))
           (Fin 1)
         = Fin (of_int (v + (currentIndex - index) - 1))"
proof -
  have "number_sub (index_number currentIndex) (index_number index) = Fin (of_int (currentIndex - index))"
    unfolding index_number_def using assms by (intro number_sub_int) simp
  moreover have "number_add (Fin (of_int v)) (Fin (of_int (currentIndex - index)))
      = Fin (of_int (v + (currentIndex - index)))"
    using assms by (intro number_add_int) simp
  moreover have "number_sub (Fin (of_int (v + (currentIndex - index)))) (Fin (of_int 1))
      = Fin (of_int (v + (currentIndex - index) - 1))"
    using assms by (intro number_sub_int) simp
  ultimately show ?thesis by simp
qed

text \<open>
  C1. The walk of an ordered item looks at the item itself and then at its previous element
  siblings, passing over every sibling that is not an \<open>li\<close>; the first \<open>li\<close> whose
  \<open>value\<close> parses, with value \<open>v\<close>, makes the index
  \<open>v + (currentIndex - indexOfType of that sibling) - 1\<close>, computed in double arithmetic
  (which is exact on integers whose magnitudes add up to less than \<open>2^53\<close>), and without
  such an \<open>li\<close> the index stays \<open>currentIndex\<close> plus the start offset of the list. In the
  decimal style the marker is the text of that index plus one, followed by a dot: there an
  item with \<open>value="10"\<close> shows \<open>10.\<close>, and the next \<open>li\<close> without a value shows \<open>11.\<close>,
  whatever their indexes are.
\<close>

theorem li_numbering_walk:
  "walk currentIndex updatedIndex element =
     (case find has_value (sibling_chain element) of
        None \<Rightarrow> updatedIndex
      | Some sibling \<Rightarrow>
          number_sub
            (number_add (value_of sibling)
               (number_sub (index_number currentIndex) (index_number (indexOfType sibling))))
            (Fin 1)) \<and>
   li_updatedIndex element parent =
     (case find has_value (sibling_chain element) of
        None \<Rightarrow> number_add (index_number (indexOfType element)) (start_offset parent)
      | Some sibling \<Rightarrow>
          number_sub
            (number_add (value_of sibling)
               (number_sub (index_number (indexOfType element)) (index_number (indexOfType sibling))))
            (Fin 1)) \<and>
   (find has_value (sibling_chain element) = Some sibling \<and> value_of sibling = Fin (of_int v) \<and>
    \<bar>v\<bar> + \<bar>currentIndex\<bar> + \<bar>indexOfType sibling\<bar> + 1 < 2 ^ 53 \<longrightarrow>
      walk currentIndex updatedIndex element
        = Fin (of_int (v + (currentIndex - indexOfType sibling) - 1))) \<and>
   (li_ordered element = Inr True \<and> parentNode element = Some parent \<and>
    decimal_style (li_listStyleType element) \<longrightarrow>
      li element = Some (Inr (Bullet_Text
        (number_toString (number_add (li_updatedIndex element parent) (Fin 1)) @ ''.''))) \<and>
      (tag element = ''li'' \<and> parseInt (attributes element ''value'') = Fin 10 \<longrightarrow>
         li element = Some (Inr (Bullet_Text ''10.''))) \<and>
      (tag element = ''li'' \<and> parseInt (attributes element ''value'') = NaN \<and>
       previous_li element = Some p \<and> parseInt (attributes p ''value'') = Fin 10 \<and>
       indexOfType element = indexOfType p + 1 \<longrightarrow>
         li element = Some (Inr (Bullet_Text ''11.''))))"
proof -
  have self: "li_updatedIndex element parent = Fin 9"
    if "tag element = ''li''" "parseInt (attributes element ''value'') = Fin 10"
  proof -
    from that have "has_value element" by (simp add: has_value_def)
    from find_has_value_self [OF this] that show ?thesis
      by (simp add: li_updatedIndex_find value_of_def index_number_def number_sub_def
          binary64_small)
  qed
  have "next": "li_updatedIndex element parent = Fin 10"
    if "tag element = ''li''" "parseInt (attributes element ''value'') = NaN"
      "previous_li element = Some p" "parseInt (attributes p ''value'') = Fin 10"
      "indexOfType element = indexOfType p + 1"
  proof -
    from that(2) have n: "\<not> has_value element" by (simp add: has_value_def)
    from that(3) have "tag p = ''li''"
      unfolding previous_li_def by (auto dest: find_Some_iff [THEN iffD1])
    with that(4) have "has_value p" by (simp add: has_value_def)
    from find_has_value_previous [OF n that(3) this] that(4,5) show ?thesis
      by (simp add: li_updatedIndex_find value_of_def index_number_def number_sub_def
          binary64_small)
  qed
  have exact: "find has_value (sibling_chain element) = Some sibling \<and>
      value_of sibling = Fin (of_int v) \<and>
      \<bar>v\<bar> + \<bar>currentIndex\<bar> + \<bar>indexOfType sibling\<bar> + 1 < 2 ^ 53 \<longrightarrow>
      walk currentIndex updatedIndex element
        = Fin (of_int (v + (currentIndex - indexOfType sibling) - 1))"
    by (simp add: walk_find walk_index_exact)
  have decimal: "li_ordered element = Inr True \<and> parentNode element = Some parent \<and>
      decimal_style (li_listStyleType element) \<longrightarrow>
      li element = Some (Inr (Bullet_Text
        (number_toString (number_add (li_updatedIndex element parent) (Fin 1)) @ ''.''))) \<and>
      (tag element = ''li'' \<and> parseInt (attributes element ''value'') = Fin 10 \<longrightarrow>
         li element = Some (Inr (Bullet_Text ''10.''))) \<and>
      (tag element = ''li'' \<and> parseInt (attributes element ''value'') = NaN \<and>
       previous_li element = Some p \<and> parseInt (attributes p ''value'') = Fin 10 \<and>
       indexOfType element = indexOfType p + 1 \<longrightarrow>
         li element = Some (Inr (Bullet_Text ''11.'')))"
    using self "next"
    by (auto simp: li_decimal binary64_small number_toString_examples)
  from exact decimal show ?thesis
    using walk_find [of currentIndex updatedIndex element] li_updatedIndex_find [of element parent]
    by blast
qed

lemmas item_defs = item0_def item1_def item2_def item3_def script_between_def example_ol_def
  example_li_def element_node_def

lemma item_tags:
  "tag (item0 styles) = ''li''" "tag (item1 styles) = ''li''" "tag (item2 styles) = ''li''"
  "tag (item3 styles) = ''li''" "tag (script_between styles) = ''script''"
  "tag (example_ol attrs styles) = ''ol''"
  by (simp_all add: item_defs tag_def toLowerCase_def)

lemma item_parents:
  "parentNode (item0 styles) = Some (example_ol [(''start'', ''5'')] styles)"
  "parentNode (item1 styles) = Some (example_ol [(''start'', ''5'')] styles)"
  "parentNode (item2 styles) = Some (example_ol [(''start'', ''5'')] styles)"
  "parentNode (item3 styles) = Some (example_ol [(''start'', ''5'')] styles)"
  "parentNode (example_ol attrs styles) = None"
  by (simp_all add: item_defs)

lemma item_closest:
  "closest [''ol'', ''ul''] (item0 styles) = Some (example_ol [(''start'', ''5'')] styles)"
  "closest [''ol'', ''ul''] (item1 styles) = Some (example_ol [(''start'', ''5'')] styles)"
  "closest [''ol'', ''ul''] (item2 styles) = Some (example_ol [(''start'', ''5'')] styles)"
  "closest [''ol'', ''ul''] (item3 styles) = Some (example_ol [(''start'', ''5'')] styles)"
  by (simp_all add: closest.simps [of _ "item0 styles"] closest.simps [of _ "item1 styles"]
      closest.simps [of _ "item2 styles"] closest.simps [of _ "item3 styles"]
      closest.simps [of _ "example_ol attrs styles" for attrs] item_tags item_parents)

lemma item_ordered:
  "li_ordered (item0 styles) = Inr True" "li_ordered (item1 styles) = Inr True"
  "li_ordered (item2 styles) = Inr True" "li_ordered (item3 styles) = Inr True"
  by (simp_all add: li_ordered_def item_closest item_tags)

lemma item_chains:
  "sibling_chain (item0 styles) = [item0 styles]"
  "sibling_chain (item1 styles) = [item1 styles, item0 styles]"
  "sibling_chain (item2 styles) = [item2 styles, item1 styles, item0 styles]"
  "sibling_chain (item3 styles) = [item3 styles, script_between styles, item2 styles, item1 styles, item0 styles]"
proof -
  show 0: "sibling_chain (item0 styles) = [item0 styles]"
    by (subst sibling_chain.simps) (simp add: item0_def example_li_def element_node_def)
  show 1: "sibling_chain (item1 styles) = [item1 styles, item0 styles]"
    by (subst sibling_chain.simps) (simp add: 0 item1_def [of styles] example_li_def element_node_def)
  show 2: "sibling_chain (item2 styles) = [item2 styles, item1 styles, item0 styles]"
    by (subst sibling_chain.simps) (simp add: 1 item2_def [of styles] example_li_def element_node_def)
  have s: "sibling_chain (script_between styles) = [script_between styles, item2 styles, item1 styles, item0 styles]"
    by (subst sibling_chain.simps) (simp add: 2 script_between_def [of styles] element_node_def)
  show "sibling_chain (item3 styles) = [item3 styles, script_between styles, item2 styles, item1 styles, item0 styles]"
    by (subst sibling_chain.simps) (simp add: s item3_def [of styles] example_li_def element_node_def)
qed

lemma item_values:
  "parseInt (attributes (item0 styles) ''value'') = NaN"
  "parseInt (attributes (item1 styles) ''value'') = NaN"
  "parseInt (attributes (item2 styles) ''value'') = Fin 10"
  "parseInt (attributes (item3 styles) ''value'') = NaN"
  "parseInt (attributes (script_between styles) ''value'') = NaN"
  "parseInt (attributes (example_ol [(''start'', ''5'')] styles) ''start'') = Fin 5"
  by (simp_all add: item_defs parseInt_examples)

lemma item_indexes:
  "indexOfType (item0 styles) = 0" "indexOfType (item1 styles) = 1"
  "indexOfType (item2 styles) = 2" "indexOfType (item3 styles) = 3"
  by (simp_all add: item_defs)

lemma item_styles:
  "style (item0 styles) = []" "style (item1 styles) = []" "style (item2 styles) = []"
  "style (item3 styles) = []" "style (example_ol attrs styles) = styles"
  by (simp_all add: item_defs)

lemma item_listStyleType:
  "li_listStyleType (item0 styles) = li_listStyleType (item3 styles)"
  "li_listStyleType (item1 styles) = li_listStyleType (item3 styles)"
  "li_listStyleType (item2 styles) = li_listStyleType (item3 styles)"
  by (simp_all add: li_listStyleType_def item_closest item_styles)

lemma item_plain_style: "li_listStyleType (item3 []) = []" "decimal_style []"
  by (simp_all add: li_listStyleType_def item_closest item_styles reduce_assign_def truthy_def
      decimal_style_def lowerAlpha_def upperAlpha_def)

lemma alpha_item_facts:
  "tag (example_li attrs index (example_ol [] [ [''listStyleType'' \<mapsto> ''lower-alpha''] ]) None) = ''li''"
  "parentNode (example_li attrs index (example_ol [] [ [''listStyleType'' \<mapsto> ''lower-alpha''] ]) None)
     = Some (example_ol [] [ [''listStyleType'' \<mapsto> ''lower-alpha''] ])"
  "closest [''ol'', ''ul'']
     (example_li attrs index (example_ol [] [ [''listStyleType'' \<mapsto> ''lower-alpha''] ]) None)
     = Some (example_ol [] [ [''listStyleType'' \<mapsto> ''lower-alpha''] ])"
  "li_ordered (example_li attrs index (example_ol [] [ [''listStyleType'' \<mapsto> ''lower-alpha''] ]) None)
     = Inr True"
  "li_listStyleType
     (example_li attrs index (example_ol [] [ [''listStyleType'' \<mapsto> ''lower-alpha''] ]) None)
     = ''lower-alpha''"
proof -
  let ?ol = "example_ol [] [ [''listStyleType'' \<mapsto> ''lower-alpha''] ]"
  let ?li = "example_li attrs index ?ol None"
  show t: "tag ?li = ''li''"
    by (simp add: example_li_def element_node_def tag_def toLowerCase_def)
  show p: "parentNode ?li = Some ?ol"
    by (simp add: example_li_def element_node_def)
  show c: "closest [''ol'', ''ul''] ?li = Some ?ol"
    by (simp add: closest.simps [of _ ?li] closest.simps [of _ "example_ol a b" for a b]
        t p item_tags)
  show "li_ordered ?li = Inr True"
    by (simp add: li_ordered_def c item_tags)
  show "li_listStyleType ?li = ''lower-alpha''"
    by (simp add: li_listStyleType_def c item_styles reduce_assign_def)
      (simp add: example_li_def element_node_def truthy_def)
qed

lemma alpha_item_index:
  assumes "parseInt (map_of attrs ''value'') = Fin (of_int v)" and "\<bar>v\<bar> + 2 * \<bar>index\<bar> + 1 < 2 ^ 53"
  shows "li_updatedIndex
           (example_li attrs index (example_ol [] [ [''listStyleType'' \<mapsto> ''lower-alpha''] ]) None)
           (example_ol [] [ [''listStyleType'' \<mapsto> ''lower-alpha''] ]) = Fin (of_int (v - 1))"
proof -
  let ?li = "example_li attrs index (example_ol [] [ [''listStyleType'' \<mapsto> ''lower-alpha''] ]) None"
  have a: "attributes ?li = map_of attrs" "indexOfType ?li = index"
    by (simp_all add: example_li_def element_node_def)
  have "has_value ?li" using assms(1) by (simp add: has_value_def alpha_item_facts a)
  from find_has_value_self [OF this] show ?thesis
    using walk_index_exact [of v index index] assms
    by (simp add: li_updatedIndex_find value_of_def a)
qed

theorem li_numbering_walk_witness:
  "li (item2 []) = Some (Inr (Bullet_Text ''10.'')) \<and>
   li (item3 []) = Some (Inr (Bullet_Text ''11.'')) \<and>
   li (item1 []) = Some (Inr (Bullet_Text ''6.'')) \<and>
   walk 3 (Fin 7) (item3 []) = Fin 10 \<and> walk 1 (Fin 5) (item1 []) = Fin 5"
proof -
  let ?ol = "example_ol [(''start'', ''5'')] []"
  have prev: "previous_li (item3 []) = Some (item2 [])"
    by (simp add: previous_li_def item_chains item_tags)
  have found: "find has_value (sibling_chain (item3 [])) = Some (item2 [])"
    "find has_value (sibling_chain (item1 [])) = None"
    by (simp_all add: item_chains has_value_def item_tags item_values)
  have decimal:
    "li_ordered (item1 []) = Inr True \<and> parentNode (item1 []) = Some ?ol \<and>
     decimal_style (li_listStyleType (item1 []))"
    "li_ordered (item2 []) = Inr True \<and> parentNode (item2 []) = Some ?ol \<and>
     decimal_style (li_listStyleType (item2 []))"
    "li_ordered (item3 []) = Inr True \<and> parentNode (item3 []) = Some ?ol \<and>
     decimal_style (li_listStyleType (item3 []))"
    by (simp_all add: item_ordered item_parents item_listStyleType item_plain_style)
  note first = li_numbering_walk [of 1 "Fin 5" "item1 []" ?ol "item1 []" 0 "item1 []"]
  note second = li_numbering_walk [of 2 "Fin 0" "item2 []" ?ol "item2 []" 10 "item2 []"]
  note third = li_numbering_walk [of 3 "Fin 7" "item3 []" ?ol "item2 []" 10 "item2 []"]
  have 2: "li (item2 []) = Some (Inr (Bullet_Text ''10.''))"
    using second [THEN conjunct2, THEN conjunct2, THEN conjunct2, THEN mp, OF decimal(2),
        THEN conjunct2, THEN conjunct1]
    by (simp add: item_tags item_values)
  have 3: "li (item3 []) = Some (Inr (Bullet_Text ''11.''))"
    using third [THEN conjunct2, THEN conjunct2, THEN conjunct2, THEN mp, OF decimal(3),
        THEN conjunct2, THEN conjunct2]
    by (simp add: item_tags item_values prev item_indexes)
  have "li_updatedIndex (item1 []) ?ol = Fin 5"
    using first [THEN conjunct2, THEN conjunct1]
    by (simp add: found item_indexes item_values start_offset_def index_number_def
        number_sub_def binary64_small)
  then have 1: "li (item1 []) = Some (Inr (Bullet_Text ''6.''))"
    using first [THEN conjunct2, THEN conjunct2, THEN conjunct2, THEN mp, OF decimal(1),
        THEN conjunct1]
    by (simp add: binary64_small number_toString_examples)
  have w3: "walk 3 (Fin 7) (item3 []) = Fin 10"
    using third [THEN conjunct2, THEN conjunct2, THEN conjunct1]
    by (simp add: found value_of_def item_values item_indexes)
  have w1: "walk 1 (Fin 5) (item1 []) = Fin 5"
    using first [THEN conjunct1] by (simp add: found)
  from 1 2 3 w1 w3 show ?thesis by simp
qed

theorem li_alpha_value_counterexample:
  "li_ordered alpha_item_ten = Inr True \<and>
   attributes alpha_item_ten ''value'' = Some ''10'' \<and>
   li alpha_item_ten = Some (Inr (Bullet_Text ''j.''))"
proof -
  have "li_updatedIndex alpha_item_ten (example_ol [] [ [''listStyleType'' \<mapsto> ''lower-alpha''] ])
      = Fin 9"
    unfolding alpha_item_ten_def
    using alpha_item_index [of "[(''value'', ''10'')]" 10 0] by (simp add: parseInt_examples)
  moreover have "attributes alpha_item_ten ''value'' = Some ''10''"
    by (simp add: alpha_item_ten_def example_li_def element_node_def)
  moreover have "alpha_bullet toLowerCase (Fin 9) = Inr (Bullet_Text ''j.'')"
    by (simp add: alpha_bullet_def orderedAlpha_def toLowerCase_def)
  ultimately show ?thesis
    using alpha_item_facts [of "[(''value'', ''10'')]" 0]
    by (simp add: li_def ordered_bullet_def alpha_item_ten_def [symmetric] Let_def lowerAlpha_def)
qed

section \<open>Roman markers\<close>

lemma li_ordered_parent:
  assumes "tag element = ''li''" and "li_ordered element = Inr ordered"
  shows "\<exists>parent. parentNode element = Some parent"
proof (cases "parentNode element")
  case None
  then have "closest [''ol'', ''ul''] element = None"
    using assms(1) by (subst closest.simps) simp
  with None assms(2) show ?thesis
    by (simp add: li_ordered_def)
next
  case (Some parent)
  then show ?thesis by simp
qed

lemma roman_style_facts:
  "\<not> includes_str ''lower-roman'' ''none''" "\<not> includes_str ''lower-roman'' ''url(''"
  "''lower-roman'' \<notin> set lowerAlpha" "''lower-roman'' \<notin> set upperAlpha"
  "\<not> includes_str ''upper-roman'' ''none''" "\<not> includes_str ''upper-roman'' ''url(''"
  "''upper-roman'' \<notin> set lowerAlpha" "''upper-roman'' \<notin> set upperAlpha"
  by (simp_all add: lowerAlpha_def upperAlpha_def)

lemma li_lower_roman:
  assumes "tag element = ''li''" and "li_ordered element = Inr True"
    and "0 \<le> indexOfType element" and "li_listStyleType element = ''lower-roman''"
  shows "li element =
     Some (Inr (Bullet_Text (toLowerCase (roman_greedy conversationMap (indexOfType element + 1)) @ ''.'')))"
proof -
  from li_ordered_parent [OF assms(1,2)] obtain parent where "parentNode element = Some parent" ..
  moreover have "toRoman (indexOfType element + 1) = Some (roman_greedy conversationMap (indexOfType element + 1))"
    using assms(3) by (simp add: toRoman_nonneg)
  ultimately show ?thesis
    using assms(2,4) by (simp add: li_def ordered_bullet_def roman_style_facts Let_def)
qed

lemma li_upper_roman:
  assumes "tag element = ''li''" and "li_ordered element = Inr True"
    and "0 \<le> indexOfType element" and "li_listStyleType element = ''upper-roman''"
  shows "li element =
     Some (Inr (Bullet_Text (toUpperCase (roman_greedy conversationMap (indexOfType element + 1)) @ ''.'')))"
proof -
  from li_ordered_parent [OF assms(1,2)] obtain parent where "parentNode element = Some parent" ..
  moreover have "toRoman (indexOfType element + 1) = Some (roman_greedy conversationMap (indexOfType element + 1))"
    using assms(3) by (simp add: toRoman_nonneg)
  ultimately show ?thesis
    using assms(2,4) by (simp add: li_def ordered_bullet_def roman_style_facts Let_def)
qed

lemma roman_greedy_examples:
  "roman_greedy conversationMap 3 = ''III''" "roman_greedy conversationMap 4 = ''IV''"
  by (simp_all add: conversationMap_def roman_greedy.simps)

lemma roman_four: "toLowerCase (roman_greedy conversationMap 4) = ''iv''"
  "toUpperCase (roman_greedy conversationMap 4) = ''IV''"
  "toLowerCase (roman_greedy conversationMap 3) = ''iii''"
  by (simp_all add: roman_greedy_examples toLowerCase_def toUpperCase_def)

text \<open>
  C6. For an ordered list item whose list style is \<open>lower-roman\<close> (\<open>upper-roman\<close>), the
  marker is the lowercase (uppercase) Roman numeral of \<open>indexOfType + 1\<close> followed by a dot.
  Neither \<open>value\<close> attributes nor the \<open>start\<close> offset enter: two such items with the same
  index and style get the same marker. At index 3, \<open>lower-roman\<close> gives \<open>iv.\<close>
\<close>

theorem li_roman_marker:
  assumes "tag element = ''li''" and "li_ordered element = Inr True" and "0 \<le> indexOfType element"
  shows "(li_listStyleType element = ''lower-roman'' \<longrightarrow>
            li element = Some (Inr (Bullet_Text
              (toLowerCase (roman_greedy conversationMap (indexOfType element + 1)) @ ''.'')))) \<and>
         (li_listStyleType element = ''upper-roman'' \<longrightarrow>
            li element = Some (Inr (Bullet_Text
              (toUpperCase (roman_greedy conversationMap (indexOfType element + 1)) @ ''.'')))) \<and>
         (li_listStyleType element = ''lower-roman'' \<and> indexOfType element = 3 \<longrightarrow>
            li element = Some (Inr (Bullet_Text ''iv.''))) \<and>
         (tag other = ''li'' \<and> li_ordered other = Inr True \<and>
          indexOfType other = indexOfType element \<and>
          li_listStyleType other = li_listStyleType element \<and>
          li_listStyleType element \<in> {''lower-roman'', ''upper-roman''} \<longrightarrow>
            li other = li element)"
proof -
  have a: "li_listStyleType element = ''lower-roman'' \<and> indexOfType element = 3 \<longrightarrow>
            li element = Some (Inr (Bullet_Text ''iv.''))"
    using li_lower_roman [OF assms] by (simp add: roman_four)
  have b: "li other = li element"
    if "tag other = ''li''" "li_ordered other = Inr True" "indexOfType other = indexOfType element"
      "li_listStyleType other = li_listStyleType element"
      "li_listStyleType element \<in> {''lower-roman'', ''upper-roman''}"
  proof -
    from that(3) assms(3) have i: "0 \<le> indexOfType other" by simp
    from that(5) show ?thesis
    proof
      assume l: "li_listStyleType element = ''lower-roman''"
      with that(4) have "li_listStyleType other = ''lower-roman''" by simp
      from li_lower_roman [OF that(1,2) i this] li_lower_roman [OF assms l] that(3)
      show ?thesis by simp
    next
      assume "li_listStyleType element \<in> {''upper-roman''}"
      then have u: "li_listStyleType element = ''upper-roman''" by simp
      with that(4) have "li_listStyleType other = ''upper-roman''" by simp
      from li_upper_roman [OF that(1,2) i this] li_upper_roman [OF assms u] that(3)
      show ?thesis by simp
    qed
  qed
  from a b li_lower_roman [OF assms] li_upper_roman [OF assms] show ?thesis
    by blast
qed

lemma item_roman_style:
  "li_listStyleType (item3 [ [''listStyleType'' \<mapsto> ''lower-roman''] ]) = ''lower-roman''"
  "li_listStyleType (item3 [ [''listStyle'' \<mapsto> ''upper-roman''] ]) = ''upper-roman''"
  by (simp_all add: li_listStyleType_def item_closest item_styles reduce_assign_def truthy_def)

lemma valued_roman_item_facts:
  "tag valued_roman_item = ''li''"
  "li_ordered valued_roman_item = Inr True"
  "indexOfType valued_roman_item = 3"
  "li_listStyleType valued_roman_item = ''lower-roman''"
  "parseInt (attributes valued_roman_item ''value'') = Fin 10"
proof -
  let ?ol = "example_ol [(''start'', ''7'')] [ [''listStyleType'' \<mapsto> ''lower-roman''] ]"
  show t: "tag valued_roman_item = ''li''"
    by (simp add: valued_roman_item_def example_li_def element_node_def tag_def toLowerCase_def)
  have p: "parentNode valued_roman_item = Some ?ol"
    by (simp add: valued_roman_item_def example_li_def element_node_def)
  have c: "closest [''ol'', ''ul''] valued_roman_item = Some ?ol"
    by (simp add: closest.simps [of _ valued_roman_item] closest.simps [of _ "example_ol a b" for a b]
        t p item_tags)
  show "li_ordered valued_roman_item = Inr True"
    by (simp add: li_ordered_def c item_tags)
  show "indexOfType valued_roman_item = 3"
    by (simp add: valued_roman_item_def example_li_def element_node_def)
  show "li_listStyleType valued_roman_item = ''lower-roman''"
    by (simp add: li_listStyleType_def c item_styles reduce_assign_def)
      (simp add: valued_roman_item_def example_li_def element_node_def truthy_def)
  show "parseInt (attributes valued_roman_item ''value'') = Fin 10"
    by (simp add: valued_roman_item_def example_li_def element_node_def parseInt_examples)
qed

theorem li_roman_marker_witness:
  "li (item3 [ [''listStyleType'' \<mapsto> ''lower-roman''] ]) = Some (Inr (Bullet_Text ''iv.'')) \<and>
   li valued_roman_item = Some (Inr (Bullet_Text ''iv.'')) \<and>
   li (item3 [ [''listStyle'' \<mapsto> ''upper-roman''] ]) = Some (Inr (Bullet_Text ''IV.'')) \<and>
   li (item2 [ [''listStyleType'' \<mapsto> ''lower-roman''] ]) = Some (Inr (Bullet_Text ''iii.''))"
proof -
  have 1: "li (item3 [ [''listStyleType'' \<mapsto> ''lower-roman''] ]) = Some (Inr (Bullet_Text ''iv.''))"
    and 4: "li valued_roman_item = Some (Inr (Bullet_Text ''iv.''))"
    using li_roman_marker [of "item3 [ [''listStyleType'' \<mapsto> ''lower-roman''] ]" valued_roman_item]
    by (simp_all add: item_tags item_ordered item_indexes item_roman_style roman_four
        valued_roman_item_facts)
  have 2: "li (item3 [ [''listStyle'' \<mapsto> ''upper-roman''] ]) = Some (Inr (Bullet_Text ''IV.''))"
    using li_roman_marker [of "item3 [ [''listStyle'' \<mapsto> ''upper-roman''] ]"
        "item3 [ [''listStyle'' \<mapsto> ''upper-roman''] ]"]
    by (simp add: item_tags item_ordered item_indexes item_roman_style roman_four)
  have 3: "li (item2 [ [''listStyleType'' \<mapsto> ''lower-roman''] ]) = Some (Inr (Bullet_Text ''iii.''))"
    using li_roman_marker [of "item2 [ [''listStyleType'' \<mapsto> ''lower-roman''] ]"
        "item2 [ [''listStyleType'' \<mapsto> ''lower-roman''] ]"]
    by (simp add: item_tags item_ordered item_indexes item_roman_style item_listStyleType roman_four)
  from 1 2 3 4 show ?thesis by simp
qed

lemma alpha_bullet_negative: "q < 0 \<Longrightarrow> alpha_bullet convert (Fin q) = Inl TypeError"
  by (simp add: alpha_bullet_def)

text \<open>
  C7 does not hold of the code: for the only item of
  \<open><ol style="list-style-type: lower-alpha"><li value="0"/></ol>\<close> the adjusted index is
  \<open>-1\<close>, \<open>orderedAlpha[-1]\<close> is \<open>undefined\<close>, and calling \<open>toLowerCase\<close> on it throws a
  \<open>TypeError\<close>.
\<close>

theorem li_alpha_index_throws: "li alpha_item_zero = Some (Inl TypeError)"
proof -
  have "li_updatedIndex alpha_item_zero (example_ol [] [ [''listStyleType'' \<mapsto> ''lower-alpha''] ])
      = Fin (- 1)"
    unfolding alpha_item_zero_def
    using alpha_item_index [of "[(''value'', ''0'')]" 0 0] by (simp add: parseInt_examples)
  then show ?thesis
    using alpha_item_facts [of "[(''value'', ''0'')]" 0]
    by (simp add: li_def ordered_bullet_def alpha_item_zero_def [symmetric] Let_def lowerAlpha_def
        alpha_bullet_negative)
qed

lemma unclosed_url_item_facts:
  "li_ordered unclosed_url_item = Inr True" "li_listStyleType unclosed_url_item = ''url(''"
proof -
  have t: "tag unclosed_url_item = ''li''"
    by (simp add: unclosed_url_item_def example_li_def element_node_def tag_def toLowerCase_def)
  have p: "parentNode unclosed_url_item = Some (example_ol [] [ [''listStyle'' \<mapsto> ''url(''] ])"
    by (simp add: unclosed_url_item_def example_li_def element_node_def)
  have c: "closest [''ol'', ''ul''] unclosed_url_item = Some (example_ol [] [ [''listStyle'' \<mapsto> ''url(''] ])"
    by (simp add: closest.simps [of _ unclosed_url_item] closest.simps [of _ "example_ol a b" for a b]
        t p item_tags)
  show "li_ordered unclosed_url_item = Inr True"
    by (simp add: li_ordered_def c item_tags)
  show "li_listStyleType unclosed_url_item = ''url(''"
    by (simp add: li_listStyleType_def c item_styles reduce_assign_def)
      (simp add: unclosed_url_item_def example_li_def element_node_def truthy_def)
qed

text \<open>
  A second throwing path: with the list style \<open>url(\<close> the regular expression does not
  match, and indexing the \<open>null\<close> result throws.
\<close>

lemma li_unclosed_url_throws: "li unclosed_url_item = Some (Inl TypeError)"
  by (simp add: li_def unclosed_url_item_facts)

lemma li_closed_url_example:
  "match_group ''url(icon.png)'' = Some ''icon.png''"
  "map_option strip_quotes (match_group [CHR ''u'', CHR ''r'', CHR ''l'', CHR ''('', CHR 0x27,
     CHR ''a'', CHR 0x27, CHR '')'']) = Some ''a''"
  by (simp_all add: strip_quotes_def line_terminator_def)

end
